theory Spec2Isabelle
  imports Main "HOL-Library.Word"
begin

section \<open>Data model\<close>

text \<open>
  Go's \<open>uint64\<close> is a 64-bit word. \<open>time.Duration\<close> is an \<open>int64\<close> count of
  nanoseconds: it is kept as a 64-bit word whose value is read with \<open>sint\<close>, so that
  the arithmetic of the source wraps around exactly as it does in Go. A \<open>[]byte\<close> is a
  list of 8-bit characters.
\<close>

type_synonym uint64 = "64 word"
type_synonym duration = "64 word"
type_synonym bytes = string

definition Second :: duration where
  "Second = 1000000000"

definition Hour :: duration where
  "Hour = 3600 * Second"

text \<open>The constants of \<open>broker.go\<close> and of the reserve adapter.\<close>

definition ttrMargin :: duration where
  "ttrMargin = 1 * Second"

definition TimeoutTries :: uint64 where
  "TimeoutTries = 1"

definition ReleaseTries :: uint64 where
  "ReleaseTries = 10"

definition DeadlineSoonDelay :: duration where
  "DeadlineSoonDelay = 1 * Second"

text \<open>
  The values \<open>phpserialize.Decode\<close> hands back as \<open>interface{}\<close>. A Go map is kept as
  the list of its entries in the order the \<open>range\<close> loop visits them; \<open>VOther\<close> stands
  for every dynamic type the code never inspects.
\<close>

datatype phpvalue =
    VNil
  | VBool bool
  | VInt int
  | VString string
  | VMap "(phpvalue \<times> phpvalue) list"
  | VOther nat

text \<open>
  Errors are values. \<open>ConnError\<close> is \<open>beanstalk.ConnError\<close> with its \<open>Err\<close> field;
  \<open>Failure\<close> is any other error value a collaborator returns; the remaining
  constructors are the errors \<open>getJobWD\<close> and \<open>findDomain\<close> build themselves.
\<close>

datatype conn_err = ErrTimeout | ErrDeadline | ErrOther string

datatype error =
    ConnError conn_err
  | Failure string
  | UnserializeFailed error
  | NotAMap phpvalue
  | DomainNotString
  | DomainMissing

record JobResult =
  Buried :: bool
  Executed :: bool
  ExitStatus :: int
  JobId :: uint64
  Stdout :: bytes
  TimedOut :: bool
  Error :: "error option"

text \<open>The zero value of the struct, from which every composite literal starts.\<close>

definition zeroJobResult :: JobResult where
  "zeroJobResult = \<lparr>Buried = False, Executed = False, ExitStatus = 0, JobId = 0,
     Stdout = [], TimedOut = False, Error = None\<rparr>"

text \<open>\<open>bs.Job\<close>: the reserved job's id and body (the connection is the environment).\<close>

record Job =
  Id_job :: uint64
  Body :: bytes

text \<open>\<open>cli.Options\<close>.\<close>

record Options =
  Address :: string
  All :: bool
  PerTube :: uint64
  Tubes :: "string list"
  PHPBinary :: string
  PHPINI :: string
  InstanceRoot :: string
  ClusterRoot :: string
  Controller :: string
  RequeueDelay :: duration

text \<open>
  \<open>Broker\<close>: the logger and the embedded wait group carry no behaviour of their own
  here; \<open>results\<close> records whether the results channel is non-nil.
\<close>

record Broker =
  Address_b :: string
  Tube :: string
  options :: Options
  results :: bool

section \<open>Effects\<close>

text \<open>
  Every call that leaves the worker is recorded, in order, in a trace: requests to the
  queue server, calls into the \<open>cmd\<close> package that runs the executor process, timer
  operations, sends on the results channel, logging at error level, and the deferred
  \<open>fin\<close> callback. What the outside answers is an input of the model.
\<close>

datatype action =
    Dial string
  | ReserveCall duration
  | Sleep duration
  | LogError error
  | StatsTimeouts uint64
  | StatsReleases uint64
  | StatsTimeLeft uint64
  | ReleaseJob uint64 duration
  | DeleteJob uint64
  | NewTimer duration
  | NewCommand string "string list"
  | StartWithStdin bytes
  | Terminate
  | TimerStop
  | Send JobResult
  | Fin

definition prepend :: "action list \<Rightarrow> action list \<times> 'a \<Rightarrow> action list \<times> 'a" where
  "prepend tr p = (tr @ fst p, snd p)"

section \<open>Result handling\<close>

text \<open>
  \<open>bs.Job\<close> and its methods are declared outside the files at hand; they wrap the
  requests release, delete and job statistics of the queue server. What they answer is an
  input here. A count is taken as an unsigned 64-bit integer, like the job id; for counts
  below \<open>2 ^ 63\<close> a signed reading gives the same comparisons and the same products.

  The answers of the queue server to the three requests \<open>handleResult\<close> can make.
  \<open>job.Releases()\<close> answers with a count or an error.
\<close>

record handle_env =
  releases_reply :: "error + uint64"
  delete_reply :: "error option"
  release_reply :: "error option"

text \<open>\<open>time.Duration(r*r*r*r) * time.Second\<close>, in 64-bit arithmetic.\<close>

definition retry_delay :: "uint64 \<Rightarrow> duration" where
  "retry_delay r = (r * r * r * r) * Second"

text \<open>
  \<open>handleResult\<close> returns the trace of its requests and its error result. In the
  \<open>default\<close> branch \<open>r, err := job.Releases()\<close> declares a new \<open>err\<close>, so the error
  of \<open>job.Release\<close> is assigned to that inner variable and the function returns nil.
\<close>

definition handleResult :: "handle_env \<Rightarrow> Job \<Rightarrow> JobResult \<Rightarrow> action list \<times> error option" where
  "handleResult env job result =
     (if TimedOut result then ([], None)
      else if ExitStatus result = 0 then ([DeleteJob (Id_job job)], delete_reply env)
      else
        (let r = (case releases_reply env of Inl err \<Rightarrow> ReleaseTries | Inr r \<Rightarrow> r);
             delay = retry_delay r
         in ([StatsReleases (Id_job job), ReleaseJob (Id_job job) delay], None)))"

section \<open>The reserve adapter\<close>

text \<open>
  \<open>ts.Reserve\<close> answers each call with a job or with an error. The adapter's loop
  is run against the list of answers the server gives, in order. When the answers run
  out before a job arrives the adapter has made its next call and waits for the answer
  (\<open>StillReserving\<close>): it has not returned. \<open>err.(beanstalk.ConnError)\<close> is a type assertion without the
  comma-ok form, so an error of any other dynamic type panics.
\<close>

datatype reserve_reply = Reserved uint64 bytes | ReserveErr error

datatype reserved = Got uint64 bytes | StillReserving | ReservePanic

fun MustReserveWithoutTimeout :: "reserve_reply list \<Rightarrow> action list \<times> reserved" where
  "MustReserveWithoutTimeout [] = ([ReserveCall Hour], StillReserving)"
| "MustReserveWithoutTimeout (Reserved jid body # rs) = ([ReserveCall Hour], Got jid body)"
| "MustReserveWithoutTimeout (ReserveErr (ConnError ErrTimeout) # rs) =
     prepend [ReserveCall Hour] (MustReserveWithoutTimeout rs)"
| "MustReserveWithoutTimeout (ReserveErr (ConnError ErrDeadline) # rs) =
     prepend [ReserveCall Hour, Sleep DeadlineSoonDelay] (MustReserveWithoutTimeout rs)"
| "MustReserveWithoutTimeout (ReserveErr (ConnError (ErrOther m)) # rs) =
     prepend [ReserveCall Hour, LogError (ConnError (ErrOther m))] (MustReserveWithoutTimeout rs)"
| "MustReserveWithoutTimeout (ReserveErr err # rs) = ([ReserveCall Hour], ReservePanic)"

section \<open>Working-directory resolution\<close>

text \<open>
  \<open>findDomain\<close> ranges over the entries of the decoded map. Only an entry whose key
  is the string \<open>domain\<close> ends the loop; keys of any other dynamic type fall through
  the type switch.
\<close>

fun findDomain :: "(phpvalue \<times> phpvalue) list \<Rightarrow> error + string" where
  "findDomain [] = Inl DomainMissing"
| "findDomain ((VString k, v) # dec) =
     (if k \<noteq> ''domain'' then findDomain dec
      else (case v of VString d \<Rightarrow> Inr d | _ \<Rightarrow> Inl DomainNotString))"
| "findDomain ((k, v) # dec) = findDomain dec"

text \<open>
  \<open>strings.ToLower\<close> on the ASCII letters; every other byte is kept. (On text outside
  ASCII the library maps whole code points, none of which becomes one of the letters of
  \<open>cluster\<close>, so the comparison below is decided by the ASCII letters alone.)
\<close>

definition toLower_byte :: "char \<Rightarrow> char" where
  "toLower_byte c =
     (let n = (of_char c :: nat) in if 65 \<le> n \<and> n \<le> 90 then char_of (n + 32) else c)"

definition ToLower :: "string \<Rightarrow> string" where
  "ToLower s = map toLower_byte s"

text \<open>The decoder \<open>phpserialize.Decode\<close> is a parameter of the model.\<close>

definition getJobWD :: "(bytes \<Rightarrow> error + phpvalue) \<Rightarrow> Options \<Rightarrow> Job \<Rightarrow> error + string" where
  "getJobWD Decode opts job =
     (case Decode (Body job) of
        Inl err \<Rightarrow> Inl (UnserializeFailed err)
      | Inr dec \<Rightarrow>
          (case dec of
             VMap m \<Rightarrow>
               (case findDomain m of
                  Inl err \<Rightarrow> Inl err
                | Inr domain \<Rightarrow>
                    if ToLower domain = ''cluster'' then Inr (ClusterRoot opts @ ''/worker'')
                    else Inr (InstanceRoot opts @ ''/'' @ domain @ ''/worker''))
           | _ \<Rightarrow> Inl (NotAMap dec)))"

section \<open>The execution supervisor\<close>

text \<open>
  The \<open>cmd\<close> package, which builds, starts, terminates and waits for the executor
  process, is declared outside the files at hand. The error of each of its calls and the
  events of the process (chunks of output, the end of the output, the wait result) are
  inputs here.

  The two \<open>select\<close> loops of \<open>executeJob\<close> are run against the sequence of cases the
  runtime picks. In the first loop a case is the timer firing (with the answer of
  \<open>cmd.Terminate\<close>), a chunk of output, or the output channel being closed; in the
  second it is the wait result (\<open>wr.Err\<close>, \<open>wr.Status\<close>) or the timer firing. A loop
  whose events run out before it is left never returns: its result is \<open>None\<close>.
\<close>

datatype out_event = OutTimer "error option" | OutData bytes | OutClosed

datatype wait_event = WaitResult "error option" int | WaitTimer

record exec_env =
  time_left :: "duration \<times> error option"
  new_command :: "error option"
  start :: "error option"
  out_events :: "out_event list"
  wait_events :: "wait_event list"

fun stdoutReader :: "JobResult \<Rightarrow> out_event list \<Rightarrow> action list \<times> (JobResult \<times> error option) option" where
  "stdoutReader result [] = ([], None)"
| "stdoutReader result (OutTimer (Some err) # evs) = ([Terminate], Some (result, Some err))"
| "stdoutReader result (OutTimer None # evs) =
     prepend [Terminate] (stdoutReader (result\<lparr>TimedOut := True\<rparr>) evs)"
| "stdoutReader result (OutData d # evs) =
     stdoutReader (result\<lparr>Stdout := Stdout result @ d\<rparr>) evs"
| "stdoutReader result (OutClosed # evs) = ([], Some (result, None))"

text \<open>
  In the wait loop \<open>if wr.Err == nil { err = wr.Err }\<close> assigns only a nil error, and
  the error of \<open>cmd.Terminate\<close> is dropped.
\<close>

fun waitLoop :: "JobResult \<Rightarrow> error option \<Rightarrow> wait_event list \<Rightarrow> action list \<times> (JobResult \<times> error option) option" where
  "waitLoop result err [] = ([], None)"
| "waitLoop result err (WaitResult werr status # evs) =
     ([TimerStop],
      Some (result\<lparr>ExitStatus := status\<rparr>, if werr = None then werr else err))"
| "waitLoop result err (WaitTimer # evs) =
     prepend [Terminate] (waitLoop (result\<lparr>TimedOut := True\<rparr>) err evs)"

definition executeJob :: "Broker \<Rightarrow> exec_env \<Rightarrow> Job \<Rightarrow> string \<Rightarrow> action list \<times> (JobResult \<times> error option) option" where
  "executeJob b env job cwd =
     (let result = zeroJobResult\<lparr>JobId := Id_job job, Executed := True\<rparr>;
          ttr = fst (time_left env);
          t0 = [StatsTimeLeft (Id_job job), NewTimer (ttr + ttrMargin)]
      in case snd (time_left env) of
           Some err \<Rightarrow> (t0, Some (result, Some err))
         | None \<Rightarrow>
             (let t1 = t0 @ [NewCommand cwd [PHPBinary (options b), ''-c'', PHPINI (options b),
                                ''index.php'', Controller (options b)]]
              in case new_command env of
                   Some err \<Rightarrow> (t1, Some (result, Some err))
                 | None \<Rightarrow>
                     (let t2 = t1 @ [StartWithStdin (Body job)]
                      in case start env of
                           Some err \<Rightarrow> (t2, Some (result, Some err))
                         | None \<Rightarrow>
                             (case stdoutReader result (out_events env) of
                                (t3, None) \<Rightarrow> (t2 @ t3, None)
                              | (t3, Some (result', Some err)) \<Rightarrow> (t2 @ t3, Some (result', Some err))
                              | (t3, Some (result', None)) \<Rightarrow>
                                  prepend (t2 @ t3) (waitLoop result' None (wait_events env))))))"

section \<open>The worker\<close>

text \<open>
  What the outside answers during one pass of the loop of \<open>Broker.Run\<close>: the answers
  to the reserve calls, to \<open>job.Timeouts()\<close>, to \<open>job.Releases()\<close>, to the
  \<open>job.Release\<close> of the two requeue branches (at most one of them runs in a pass),
  and the environments of \<open>executeJob\<close> and \<open>handleResult\<close>.
\<close>

record attempt =
  reserve_replies :: "reserve_reply list"
  timeouts_reply :: "error + uint64"
  run_releases_reply :: "error + uint64"
  requeue_reply :: "error option"
  exec :: exec_env
  handle :: handle_env

text \<open>
  How a pass ends: \<open>continue\<close> or the end of the body (\<open>Continue\<close>), \<open>return\<close>
  (\<open>Return\<close>), a call that never comes back (\<open>Block\<close>), or a panic (\<open>Crash\<close>).
\<close>

datatype control = Continue | Return | Block | Crash

text \<open>
  The body shared by the two requeue branches: release with the configured delay; on
  success send \<open>JobResult{JobId: job.Id, Buried: true}\<close> when there is a results
  channel. A send on the results channel is taken to complete.
\<close>

definition requeue :: "Broker \<Rightarrow> attempt \<Rightarrow> Job \<Rightarrow> action list" where
  "requeue b a job =
     ReleaseJob (Id_job job) (RequeueDelay (options b)) #
       (case requeue_reply a of
          Some err \<Rightarrow> [LogError err]
        | None \<Rightarrow>
            if results b then [Send (zeroJobResult\<lparr>JobId := Id_job job, Buried := True\<rparr>)]
            else [])"

definition iteration :: "(bytes \<Rightarrow> error + phpvalue) \<Rightarrow> Broker \<Rightarrow> attempt \<Rightarrow> action list \<times> control" where
  "iteration Decode b a =
     (case MustReserveWithoutTimeout (reserve_replies a) of
        (t0, StillReserving) \<Rightarrow> (t0, Block)
      | (t0, ReservePanic) \<Rightarrow> (t0, Crash)
      | (t0, Got jid body) \<Rightarrow>
          (let job = \<lparr>Id_job = jid, Body = body\<rparr>;
               t1 = t0 @ [StatsTimeouts jid]
           in case timeouts_reply a of
                Inl err \<Rightarrow> (t1 @ [LogError err], Return)
              | Inr t \<Rightarrow>
                  if t \<ge> TimeoutTries then (t1 @ requeue b a job, Continue)
                  else
                    (let t2 = t1 @ [StatsReleases jid]
                     in case run_releases_reply a of
                          Inl err \<Rightarrow> (t2 @ [LogError err], Return)
                        | Inr releases \<Rightarrow>
                            if releases \<ge> ReleaseTries then (t2 @ requeue b a job, Continue)
                            else
                              (case getJobWD Decode (options b) job of
                                 Inl err \<Rightarrow> (t2 @ [LogError err], Return)
                               | Inr wd \<Rightarrow>
                                   (case executeJob b (exec a) job wd of
                                      (t3, None) \<Rightarrow> (t2 @ t3, Block)
                                    | (t3, Some (result, Some err)) \<Rightarrow>
                                        (t2 @ t3 @ [LogError err], Return)
                                    | (t3, Some (result, None)) \<Rightarrow>
                                        (case handleResult (handle a) job result of
                                           (t4, Some err) \<Rightarrow>
                                             (t2 @ t3 @ t4 @ [LogError err], Return)
                                         | (t4, None) \<Rightarrow>
                                             (t2 @ t3 @ t4 @
                                                (if results b then [Send result] else []),
                                              Continue)))))))"

text \<open>
  The loop of \<open>Run\<close>: one pass per token received on \<open>ticks\<close>. \<open>closed\<close> tells
  whether the channel is closed once the tokens are used up; if it is not, the worker
  waits for a token for ever.
\<close>

datatype ending = Returned | Blocked | Panicked

fun Run_loop :: "(bytes \<Rightarrow> error + phpvalue) \<Rightarrow> Broker \<Rightarrow> attempt list \<Rightarrow> bool \<Rightarrow> action list \<times> ending" where
  "Run_loop Decode b [] closed = ([], if closed then Returned else Blocked)"
| "Run_loop Decode b (a # ticks) closed =
     (case iteration Decode b a of
        (tr, Continue) \<Rightarrow> prepend tr (Run_loop Decode b ticks closed)
      | (tr, Return) \<Rightarrow> (tr, Returned)
      | (tr, Block) \<Rightarrow> (tr, Blocked)
      | (tr, Crash) \<Rightarrow> (tr, Panicked))"

text \<open>
  \<open>Run\<close>: \<open>defer fin()\<close> runs when the function returns and when it panics, not when
  it blocks. \<open>dial\<close> is the error of \<open>beanstalk.Dial\<close>.
\<close>

definition Run :: "(bytes \<Rightarrow> error + phpvalue) \<Rightarrow> Broker \<Rightarrow> error option \<Rightarrow> attempt list \<Rightarrow> bool \<Rightarrow> action list \<times> ending" where
  "Run Decode b dial ticks closed =
     (case dial of
        Some err \<Rightarrow> ([Dial (Address_b b), LogError err, Fin], Returned)
      | None \<Rightarrow>
          (case Run_loop Decode b ticks closed of
             (tr, Blocked) \<Rightarrow> (Dial (Address_b b) # tr, Blocked)
           | (tr, e) \<Rightarrow> (Dial (Address_b b) # tr @ [Fin], e)))"

text \<open>The calls \<open>executeJob\<close> makes: none of them occurs unless the supervisor runs.\<close>

fun supervisor_action :: "action \<Rightarrow> bool" where
  "supervisor_action (StatsTimeLeft jid) = True"
| "supervisor_action (NewTimer d) = True"
| "supervisor_action (NewCommand cwd args) = True"
| "supervisor_action (StartWithStdin body) = True"
| "supervisor_action Terminate = True"
| "supervisor_action TimerStop = True"
| "supervisor_action x = False"

text \<open>The requests that change the job on the queue server.\<close>

fun queue_operation :: "action \<Rightarrow> bool" where
  "queue_operation (ReleaseJob jid d) = True"
| "queue_operation (DeleteJob jid) = True"
| "queue_operation x = False"

section \<open>The dispatcher\<close>

text \<open>
  The dispatcher runs several goroutines: the callers of \<open>RunTube\<close> (the main
  goroutine or the discovery loop), and for every call of \<open>runBroker\<close> a worker running
  \<open>Broker.Run\<close> and a pump that feeds the worker's \<open>ticker\<close> channel. Each goroutine
  is followed from one point where it can block to the next, and a schedule says which
  goroutine moves next.

  The pump is the loop \<open>for { if end { return }; ticker <- true }\<close>. It is either
  about to read \<open>end\<close> (\<open>PumpChecking\<close>), past that test and about to send
  (\<open>PumpToSend\<close>), blocked in the send (\<open>PumpSending\<close>), or gone. The worker is
  either blocked in \<open><-ticks\<close> (\<open>WorkerWaiting\<close>), somewhere between two reads of
  \<open>ticks\<close> (\<open>WorkerBusy\<close>: connecting, or in a pass of its loop), or gone. The
  variable \<open>end\<close> is shared without synchronisation; its writes are taken to be seen
  in the order of the schedule.
\<close>

datatype pump_state = PumpChecking | PumpToSend | PumpSending | PumpReturned

datatype worker_state = WorkerWaiting | WorkerBusy | WorkerReturned

text \<open>
  What one call of \<open>runBroker\<close> has created: the channel \<open>ticker\<close> (unbuffered, so
  only its being closed is state), the variable \<open>end\<close>, the pump and the worker.
\<close>

record launched =
  l_tube :: string
  l_slot :: uint64
  ticker_closed :: bool
  end_set :: bool
  pump :: pump_state
  worker :: worker_state

text \<open>
  A call of \<open>runBroker\<close> that is blocked in \<open><-bd.ret\<close>, with what its callers still
  have to do once it comes back: the slots left in the loop of \<open>RunTube\<close>, and the
  tubes left in the loop of \<open>RunTubes\<close> or of \<open>watchNewTubes\<close>, whichever made the call.
\<close>

datatype caller = Direct | InRunTubes "string list" | InWatchNewTubes "string list"

record parked_call =
  p_launched :: nat
  p_tube :: string
  p_slots :: "uint64 list"
  p_caller :: caller

text \<open>A panic ends the whole process.\<close>

datatype panic = CloseOfClosedChannel | SendOnClosedChannel | TypeAssertionFailed

text \<open>
  \<open>BrokerDispatcher\<close>: \<open>tubeSet\<close> is the Go map, \<open>wg\<close> the counter of the embedded
  wait group, \<open>ret_closed\<close> the state of the channel \<open>ret\<close> (nothing is ever sent on
  it, it is only closed). With it are kept what the calls of \<open>runBroker\<close> have created
  (\<open>brokers\<close>), the calls that are blocked (\<open>parked\<close>), and the panic the process has
  died of, if any.
\<close>

record BrokerDispatcher =
  address :: string
  perTube :: uint64
  tubeSet :: "string \<rightharpoonup> bool"
  options_bd :: Options
  wg :: int
  ret_closed :: bool
  brokers :: "launched list"
  parked :: "parked_call list"
  crashed :: "panic option"

definition NewBrokerDispatcher :: "Options \<Rightarrow> BrokerDispatcher" where
  "NewBrokerDispatcher opts =
     \<lparr>address = Address opts, perTube = PerTube opts, tubeSet = Map.empty,
      options_bd = opts, wg = 0, ret_closed = False, brokers = [], parked = [],
      crashed = None\<rparr>"

text \<open>Reading \<open>bd.tubeSet[tube]\<close>: a missing key reads as false.\<close>

definition watched :: "BrokerDispatcher \<Rightarrow> string \<Rightarrow> bool" where
  "watched bd tube = (case tubeSet bd tube of None \<Rightarrow> False | Some w \<Rightarrow> w)"

text \<open>\<open>Shutdown\<close> is \<open>close(bd.ret)\<close>: closing a closed channel panics.\<close>

definition Shutdown :: "BrokerDispatcher \<Rightarrow> BrokerDispatcher" where
  "Shutdown bd =
     (if ret_closed bd then bd\<lparr>crashed := Some CloseOfClosedChannel\<rparr>
      else bd\<lparr>ret_closed := True\<rparr>)"

text \<open>
  The end of \<open>runBroker\<close>, after the receive from \<open>ret\<close> has come back:
  \<open>end = true; close(ticker)\<close>. A pump that is blocked in \<open>ticker <- true\<close> at that
  moment panics: send on closed channel.
\<close>

definition after_ret :: "nat \<Rightarrow> BrokerDispatcher \<Rightarrow> BrokerDispatcher" where
  "after_ret k bd =
     (if k < length (brokers bd) then
        (let l = brokers bd ! k;
             bd' = bd\<lparr>brokers := (brokers bd)[k := l\<lparr>end_set := True, ticker_closed := True\<rparr>]\<rparr>
         in if pump l = PumpSending then bd'\<lparr>crashed := Some SendOnClosedChannel\<rparr> else bd')
      else bd)"

text \<open>
  How far a caller gets: to the end (\<open>Done\<close>), to a receive from the open channel
  \<open>ret\<close> (\<open>Waits\<close>), or to the death of the process (\<open>Dead\<close>).
\<close>

datatype progress = Done | Waits | Dead

text \<open>
  \<open>runBroker\<close>, up to its receive from \<open>ret\<close>: it makes the ticker, adds one to the
  wait group and starts the worker and the pump, and is then parked at \<open><-bd.ret\<close>. The
  receive, and what comes after it, is \<open>resume\<close> below: the schedule says when it
  happens, also when \<open>ret\<close> is closed already, since the worker and the pump may move
  before the caller does. The last two arguments are not the source's: they are what the
  callers have left to do, kept for the time the call comes back.
\<close>

definition runBroker :: "string \<Rightarrow> uint64 \<Rightarrow> uint64 list \<Rightarrow> caller \<Rightarrow> BrokerDispatcher \<Rightarrow> BrokerDispatcher" where
  "runBroker tube slot slots who bd =
     bd\<lparr>wg := wg bd + 1,
        brokers := brokers bd @
          [\<lparr>l_tube = tube, l_slot = slot, ticker_closed = False, end_set = False,
            pump = PumpChecking, worker = WorkerBusy\<rparr>],
        parked := parked bd @
          [\<lparr>p_launched = length (brokers bd), p_tube = tube, p_slots = slots,
            p_caller = who\<rparr>]\<rparr>"

text \<open>
  The loop of \<open>RunTube\<close> over the slots it has left, up to where it blocks: in its
  first call of \<open>runBroker\<close>, if there is a slot left.
\<close>

fun RunTube_loop :: "string \<Rightarrow> uint64 list \<Rightarrow> caller \<Rightarrow> BrokerDispatcher \<Rightarrow> BrokerDispatcher \<times> progress" where
  "RunTube_loop tube [] who bd = (bd, Done)"
| "RunTube_loop tube (i # slots) who bd = (runBroker tube i slots who bd, Waits)"

text \<open>\<open>RunTube\<close>, as called from \<open>who\<close>.\<close>

definition RunTube_from :: "caller \<Rightarrow> string \<Rightarrow> BrokerDispatcher \<Rightarrow> BrokerDispatcher \<times> progress" where
  "RunTube_from who tube bd =
     RunTube_loop tube (map word_of_nat [0..<unat (perTube bd)]) who
       (bd\<lparr>tubeSet := (tubeSet bd)(tube \<mapsto> True)\<rparr>)"

definition RunTube :: "string \<Rightarrow> BrokerDispatcher \<Rightarrow> BrokerDispatcher \<times> progress" where
  "RunTube tube bd = RunTube_from Direct tube bd"

fun RunTubes :: "string list \<Rightarrow> BrokerDispatcher \<Rightarrow> BrokerDispatcher \<times> progress" where
  "RunTubes [] bd = (bd, Done)"
| "RunTubes (tube # tubes) bd =
     (case RunTube_from (InRunTubes tubes) tube bd of
        (bd', Done) \<Rightarrow> RunTubes tubes bd'
      | (bd', p) \<Rightarrow> (bd', p))"

fun watch_loop :: "string list \<Rightarrow> BrokerDispatcher \<Rightarrow> BrokerDispatcher \<times> progress" where
  "watch_loop [] bd = (bd, Done)"
| "watch_loop (tube # tubes) bd =
     (if \<not> watched bd tube then
        (case RunTube_from (InWatchNewTubes tubes) tube bd of
           (bd', Done) \<Rightarrow> watch_loop tubes bd'
         | (bd', p) \<Rightarrow> (bd', p))
      else watch_loop tubes bd)"

text \<open>\<open>watchNewTubes\<close>, given the answer of \<open>bd.conn.ListTubes()\<close>.\<close>

definition watchNewTubes :: "error + string list \<Rightarrow> BrokerDispatcher \<Rightarrow> error option \<times> BrokerDispatcher \<times> progress" where
  "watchNewTubes list_tubes bd =
     (case list_tubes of
        Inl err \<Rightarrow> (Some err, bd, Done)
      | Inr tubes \<Rightarrow> (None, watch_loop tubes bd))"

text \<open>
  A parked call comes back once \<open>ret\<close> is closed: it ends its \<open>runBroker\<close> with
  \<open>after_ret\<close>, and its callers go on with the slots and the tubes they have left, up
  to where they block again.
\<close>

definition resume :: "nat \<Rightarrow> BrokerDispatcher \<Rightarrow> BrokerDispatcher \<times> progress" where
  "resume c bd =
     (if c < length (parked bd) \<and> ret_closed bd then
        (let p = parked bd ! c;
             bd1 = bd\<lparr>parked := take c (parked bd) @ drop (Suc c) (parked bd)\<rparr>;
             bd2 = after_ret (p_launched p) bd1
         in if crashed bd2 \<noteq> None then (bd2, Dead)
            else
              (case RunTube_loop (p_tube p) (p_slots p) (p_caller p) bd2 of
                 (bd3, Done) \<Rightarrow>
                   (case p_caller p of
                      Direct \<Rightarrow> (bd3, Done)
                    | InRunTubes tubes \<Rightarrow> RunTubes tubes bd3
                    | InWatchNewTubes tubes \<Rightarrow> watch_loop tubes bd3)
               | (bd3, p') \<Rightarrow> (bd3, p')))
      else (bd, Waits))"

text \<open>
  One move of the pump. At the top of its loop it reads \<open>end\<close> and returns when it is
  set. Past that test it sends: a send on a closed ticker panics; a send to a worker that
  is waiting in \<open><-ticks\<close> is taken at once, and the pump is back at the top; otherwise
  the pump blocks in the send.
\<close>

definition pump_step :: "nat \<Rightarrow> BrokerDispatcher \<Rightarrow> BrokerDispatcher" where
  "pump_step k bd =
     (if k < length (brokers bd) then
        (let l = brokers bd ! k
         in case pump l of
              PumpChecking \<Rightarrow>
                bd\<lparr>brokers := (brokers bd)
                      [k := l\<lparr>pump := (if end_set l then PumpReturned else PumpToSend)\<rparr>]\<rparr>
            | PumpToSend \<Rightarrow>
                if ticker_closed l then bd\<lparr>crashed := Some SendOnClosedChannel\<rparr>
                else if worker l = WorkerWaiting
                  then bd\<lparr>brokers := (brokers bd)
                            [k := l\<lparr>pump := PumpChecking, worker := WorkerBusy\<rparr>]\<rparr>
                else bd\<lparr>brokers := (brokers bd)[k := l\<lparr>pump := PumpSending\<rparr>]\<rparr>
            | PumpSending \<Rightarrow> bd
            | PumpReturned \<Rightarrow> bd)
      else bd)"

text \<open>
  The worker, from where it is busy to its next read of \<open>ticks\<close>. \<open>how\<close> says how the
  busy stretch ends (see \<open>iteration\<close>; a failed dial counts as \<open>Return\<close>). When the
  worker returns, the deferred \<open>fin\<close>, which is \<open>bd.Done\<close>, takes one off the wait
  group. At \<open><-ticks\<close> a closed ticker makes the worker return, a pump blocked in its send
  hands over its token, and otherwise the worker blocks.
\<close>

definition worker_returns :: "nat \<Rightarrow> BrokerDispatcher \<Rightarrow> BrokerDispatcher" where
  "worker_returns k bd =
     bd\<lparr>wg := wg bd - 1,
        brokers := (brokers bd)[k := (brokers bd ! k)\<lparr>worker := WorkerReturned\<rparr>]\<rparr>"

definition worker_pass :: "nat \<Rightarrow> control \<Rightarrow> BrokerDispatcher \<Rightarrow> BrokerDispatcher" where
  "worker_pass k how bd =
     (if k < length (brokers bd) \<and> worker (brokers bd ! k) = WorkerBusy then
        (let l = brokers bd ! k
         in case how of
              Continue \<Rightarrow>
                if ticker_closed l then worker_returns k bd
                else if pump l = PumpSending
                  then bd\<lparr>brokers := (brokers bd)[k := l\<lparr>pump := PumpChecking\<rparr>]\<rparr>
                else bd\<lparr>brokers := (brokers bd)[k := l\<lparr>worker := WorkerWaiting\<rparr>]\<rparr>
            | Return \<Rightarrow> worker_returns k bd
            | Block \<Rightarrow> bd
            | Crash \<Rightarrow> bd\<lparr>crashed := Some TypeAssertionFailed\<rparr>)
      else bd)"

text \<open>A worker blocked in \<open><-ticks\<close> wakes when the ticker is closed, and returns.\<close>

definition worker_wake :: "nat \<Rightarrow> BrokerDispatcher \<Rightarrow> BrokerDispatcher" where
  "worker_wake k bd =
     (if k < length (brokers bd) \<and> worker (brokers bd ! k) = WorkerWaiting
         \<and> ticker_closed (brokers bd ! k)
      then worker_returns k bd else bd)"

text \<open>
  A schedule is a list of moves, each the move of one goroutine. Once the process has
  died nothing moves.
\<close>

datatype move =
    CallRunTube string
  | CallRunTubes "string list"
  | CallWatchNewTubes "error + string list"
  | CallShutdown
  | Resume nat
  | PumpStep nat
  | WorkerPass nat control
  | WorkerWake nat

fun step :: "move \<Rightarrow> BrokerDispatcher \<Rightarrow> BrokerDispatcher" where
  "step (CallRunTube tube) bd = fst (RunTube tube bd)"
| "step (CallRunTubes tubes) bd = fst (RunTubes tubes bd)"
| "step (CallWatchNewTubes list_tubes) bd = fst (snd (watchNewTubes list_tubes bd))"
| "step CallShutdown bd = Shutdown bd"
| "step (Resume c) bd = fst (resume c bd)"
| "step (PumpStep k) bd = pump_step k bd"
| "step (WorkerPass k how) bd = worker_pass k how bd"
| "step (WorkerWake k) bd = worker_wake k bd"

fun run :: "move list \<Rightarrow> BrokerDispatcher \<Rightarrow> BrokerDispatcher" where
  "run [] bd = bd"
| "run (m # ms) bd = (if crashed bd \<noteq> None then bd else run ms (step m bd))"

text \<open>The number of workers launched for a tube.\<close>

definition workers_for :: "string \<Rightarrow> BrokerDispatcher \<Rightarrow> nat" where
  "workers_for tube bd = length (filter (\<lambda>t. t = tube) (map l_tube (brokers bd)))"

section \<open>Sample inputs\<close>

text \<open>The defaults of \<open>ParseFlags\<close>, and a worker, a job and answers to run it on.\<close>

definition defaultOptions :: Options where
  "defaultOptions =
     \<lparr>Address = ''127.0.0.1:11300'', All = False, PerTube = 1, Tubes = [''default''],
      PHPBinary = ''/usr/bin/php'', PHPINI = ''/etc/php.ini'',
      InstanceRoot = ''/var/www/html'', ClusterRoot = ''/opt/cluster'',
      Controller = ''/Core/Job/Console'', RequeueDelay = 60 * Second\<rparr>"

definition sampleBroker :: Broker where
  "sampleBroker = \<lparr>Address_b = ''127.0.0.1:11300'', Tube = ''default'',
     options = defaultOptions, results = True\<rparr>"

definition sampleJob :: Job where
  "sampleJob = \<lparr>Id_job = 7, Body = ''a:1:{s:6:\"domain\";s:4:\"acme\";}''\<rparr>"

definition sampleHandleEnv :: handle_env where
  "sampleHandleEnv = \<lparr>releases_reply = Inr 3, delete_reply = None, release_reply = None\<rparr>"

definition failedResult :: JobResult where
  "failedResult = zeroJobResult\<lparr>JobId := 7, Executed := True, ExitStatus := 1\<rparr>"

text \<open>An execution whose timer fires while the output is still being read.\<close>

definition timedOutEnv :: exec_env where
  "timedOutEnv = \<lparr>time_left = (0, None), new_command = None, start = None,
     out_events = [OutData ''x'', OutTimer None, OutClosed],
     wait_events = [WaitResult None (- 1)]\<rparr>"

definition timedOutResult :: JobResult where
  "timedOutResult = zeroJobResult\<lparr>JobId := 7, Executed := True, ExitStatus := - 1,
     Stdout := ''x'', TimedOut := True\<rparr>"

text \<open>
  A stand-in for the decoder on three payloads: a map with the domain \<open>acme\<close>, a map
  with the domain \<open>Cluster\<close>, and an integer; anything else fails to decode.
\<close>

definition sampleDecode :: "bytes \<Rightarrow> error + phpvalue" where
  "sampleDecode body =
     (if body = ''a:1:{s:6:\"domain\";s:4:\"acme\";}''
        then Inr (VMap [(VString ''domain'', VString ''acme'')])
      else if body = ''a:1:{s:6:\"domain\";s:7:\"Cluster\";}''
        then Inr (VMap [(VString ''domain'', VString ''Cluster'')])
      else if body = ''i:5;'' then Inr (VInt 5)
      else Inl (Failure ''php unserialize failed''))"

definition clusterJob :: Job where
  "clusterJob = \<lparr>Id_job = 8, Body = ''a:1:{s:6:\"domain\";s:7:\"Cluster\";}''\<rparr>"

definition garbageJob :: Job where
  "garbageJob = \<lparr>Id_job = 9, Body = ''garbage''\<rparr>"

text \<open>A job that has timed out once before, and a job whose payload does not decode.\<close>

definition timedOutBefore :: attempt where
  "timedOutBefore =
     \<lparr>reserve_replies = [ReserveErr (ConnError ErrTimeout), Reserved 7 (Body sampleJob)],
      timeouts_reply = Inr 1, run_releases_reply = Inr 0, requeue_reply = None,
      exec = timedOutEnv, handle = sampleHandleEnv\<rparr>"

definition garbageAttempt :: attempt where
  "garbageAttempt =
     \<lparr>reserve_replies = [Reserved 9 ''garbage''],
      timeouts_reply = Inr 0, run_releases_reply = Inr 0, requeue_reply = None,
      exec = timedOutEnv, handle = sampleHandleEnv\<rparr>"

text \<open>
  A reservation that times out once and then fails with an error that is not a
  \<open>ConnError\<close>, as the name check of the client library returns it.
\<close>

definition nameErrorAttempt :: attempt where
  "nameErrorAttempt =
     \<lparr>reserve_replies = [ReserveErr (ConnError ErrTimeout), ReserveErr (Failure ''name too long'')],
      timeouts_reply = Inr 0, run_releases_reply = Inr 0, requeue_reply = None,
      exec = timedOutEnv, handle = sampleHandleEnv\<rparr>"

text \<open>An execution whose query of the time left fails.\<close>

definition brokenConnEnv :: exec_env where
  "brokenConnEnv = \<lparr>time_left = (0, Some (ConnError (ErrOther ''EOF''))), new_command = None,
     start = None, out_events = [], wait_events = []\<rparr>"

text \<open>
  A job whose executor cannot be started, and a job that runs and exits with status 0.
\<close>

definition spawnFailureAttempt :: attempt where
  "spawnFailureAttempt =
     \<lparr>reserve_replies = [Reserved 7 (Body sampleJob)],
      timeouts_reply = Inr 0, run_releases_reply = Inr 0, requeue_reply = None,
      exec = \<lparr>time_left = (30 * Second, None), new_command = None,
               start = Some (Failure ''fork/exec /usr/bin/php: no such file or directory''),
               out_events = [], wait_events = []\<rparr>,
      handle = sampleHandleEnv\<rparr>"

definition successfulAttempt :: attempt where
  "successfulAttempt =
     \<lparr>reserve_replies = [Reserved 8 (Body clusterJob)],
      timeouts_reply = Inr 0, run_releases_reply = Inr 0, requeue_reply = None,
      exec = \<lparr>time_left = (30 * Second, None), new_command = None, start = None,
               out_events = [OutData ''ok'', OutClosed], wait_events = [WaitResult None 0]\<rparr>,
      handle = sampleHandleEnv\<rparr>"

text \<open>An execution whose timer fires and whose terminate call then fails.\<close>

definition terminateFailsEnv :: exec_env where
  "terminateFailsEnv = \<lparr>time_left = (30 * Second, None), new_command = None, start = None,
     out_events = [OutData ''x'', OutTimer (Some (Failure ''os: process already finished''))],
     wait_events = []\<rparr>"

text \<open>
  A schedule of the dispatcher in discovery mode: \<open>watchNewTubes\<close> finds the tube
  \<open>default\<close> and launches slot 0; the pump finds \<open>end\<close> unset and blocks in its send
  while the worker connects; the worker reads \<open>ticks\<close>, which takes the token, and is
  in its first pass; the pump goes round its loop and blocks in its next send.
\<close>

definition busyWorker :: "move list" where
  "busyWorker =
     [CallWatchNewTubes (Inr [''default'']), PumpStep 0, PumpStep 0, WorkerPass 0 Continue,
      PumpStep 0, PumpStep 0]"

section \<open>Shorthands for the statements\<close>

text \<open>The trace of a run of passes of the worker's loop.\<close>

definition passes :: "(bytes \<Rightarrow> error + phpvalue) \<Rightarrow> Broker \<Rightarrow> attempt list \<Rightarrow> action list" where
  "passes Decode b ps = concat (map (\<lambda>p. fst (iteration Decode b p)) ps)"

text \<open>
  The literal \<open>executeJob\<close> starts from, and the calls it makes up to the start of the
  process.
\<close>

definition startedResult :: "Job \<Rightarrow> JobResult" where
  "startedResult job = zeroJobResult\<lparr>JobId := Id_job job, Executed := True\<rparr>"

definition start_calls :: "Broker \<Rightarrow> exec_env \<Rightarrow> Job \<Rightarrow> string \<Rightarrow> action list" where
  "start_calls b env job cwd =
     [StatsTimeLeft (Id_job job), NewTimer (fst (time_left env) + ttrMargin),
      NewCommand cwd [PHPBinary (options b), ''-c'', PHPINI (options b), ''index.php'',
                      Controller (options b)],
      StartWithStdin (Body job)]"

section \<open>Comparing without regard to case\<close>

text \<open>
  \<open>same_letter c l\<close>: the byte \<open>c\<close> is the lower-case ASCII letter \<open>l\<close> or its
  upper-case form. A domain equals \<open>cluster\<close> case-insensitively when it matches it
  letter by letter in this sense.
\<close>

definition same_letter :: "char \<Rightarrow> char \<Rightarrow> bool" where
  "same_letter c l = (c = l \<or> (of_char c :: nat) + 32 = of_char l)"

definition cluster_any_case :: "string \<Rightarrow> bool" where
  "cluster_any_case d = list_all2 same_letter d ''cluster''"

section \<open>What the adapter's comment promises\<close>

text \<open>
  The comment above \<open>MustReserveWithoutTimeout\<close> says what follows a failed reserve:
  after \<open>ErrTimeout\<close> the call is repeated at once, after \<open>ErrDeadline\<close> it is
  repeated after a sleep of \<open>DeadlineSoonDelay\<close>, and any other error is printed.
  \<open>retry_step\<close> is the trace of one such round.
\<close>

fun retry_step :: "error \<Rightarrow> action list" where
  "retry_step (ConnError ErrTimeout) = [ReserveCall Hour]"
| "retry_step (ConnError ErrDeadline) = [ReserveCall Hour, Sleep DeadlineSoonDelay]"
| "retry_step err = [ReserveCall Hour, LogError err]"

section \<open>The retry delay\<close>

lemma sint_word_of_nat_small: "n < 2 ^ 63 \<Longrightarrow> sint (word_of_nat n :: 64 word) = int n"
  by (simp add: signed_of_nat signed_take_bit_int_eq_self)

lemma retry_delay_of_nat: "retry_delay (word_of_nat n) = word_of_nat (n ^ 4 * 10 ^ 9)"
  by (simp add: retry_delay_def Second_def power4_eq_xxxx)

text \<open>Up to a count of 309 the product stays below \<open>2 ^ 63\<close> nanoseconds.\<close>

lemma fourth_power_fits: "n \<le> 309 \<Longrightarrow> n ^ 4 * 10 ^ 9 < (2::nat) ^ 63"
proof -
  assume "n \<le> 309"
  then have "n ^ 4 \<le> (309::nat) ^ 4" by (rule power_mono) simp
  then show ?thesis by simp
qed

lemma retry_delay_exact:
  assumes "unat r \<le> 309"
  shows "sint (retry_delay r) = int (unat r ^ 4 * 10 ^ 9)"
proof -
  have "retry_delay r = word_of_nat (unat r ^ 4 * 10 ^ 9)"
    using retry_delay_of_nat [of "unat r"] by simp
  then show ?thesis
    using sint_word_of_nat_small [OF fourth_power_fits [OF assms]] by simp
qed

lemma retry_delay_strict_mono:
  assumes "r < r'" and "unat r' \<le> 309"
  shows "sint (retry_delay r) < sint (retry_delay r')"
proof -
  from assms(1) have lt: "unat r < unat r'"
    by (simp add: word_less_nat_alt)
  with assms(2) have "unat r \<le> 309" by simp
  then have a: "sint (retry_delay r) = int (unat r ^ 4 * 10 ^ 9)"
    by (rule retry_delay_exact)
  have b: "sint (retry_delay r') = int (unat r' ^ 4 * 10 ^ 9)"
    using assms(2) by (rule retry_delay_exact)
  from lt have "unat r ^ 4 < unat r' ^ 4"
    by (intro power_strict_mono) simp_all
  then have "unat r ^ 4 * 10 ^ 9 < unat r' ^ 4 * 10 ^ 9" by simp
  then have "int (unat r ^ 4 * 10 ^ 9) < int (unat r' ^ 4 * 10 ^ 9)"
    by (simp only: of_nat_less_iff)
  with a b show ?thesis by (simp only:)
qed

text \<open>At a count of 310 the 64-bit product has wrapped: the delay comes out negative.\<close>

lemma retry_delay_wraps: "sint (retry_delay 310) = - 9211534073709551616"
  by (simp add: retry_delay_def Second_def)

section \<open>Result handling: what happens to the job\<close>

text \<open>
  C2. After an execution that did not time out, \<open>handleResult\<close> deletes the job when
  the exit status is 0. Otherwise it first asks the server for the release count \<open>r\<close>
  and then releases the job with the delay \<open>retry_delay r\<close>; when the count cannot be
  read, \<open>r\<close> is \<open>ReleaseTries\<close>, which is 10. For every count up to 10 (an executed
  job has passed the gate \<open>releases < ReleaseTries\<close>) the delay is \<open>r ^ 4\<close> seconds,
  and it grows strictly with \<open>r\<close>.
\<close>

theorem handleResult_disposition:
  assumes "\<not> TimedOut result"
  shows "(ExitStatus result = 0 \<longrightarrow>
            handleResult env job result = ([DeleteJob (Id_job job)], delete_reply env))
       \<and> (ExitStatus result \<noteq> 0 \<and> releases_reply env = Inr r \<longrightarrow>
            handleResult env job result =
              ([StatsReleases (Id_job job), ReleaseJob (Id_job job) (retry_delay r)], None))
       \<and> (ExitStatus result \<noteq> 0 \<and> releases_reply env = Inl err \<longrightarrow>
            handleResult env job result =
              ([StatsReleases (Id_job job), ReleaseJob (Id_job job) (retry_delay ReleaseTries)],
               None))
       \<and> unat ReleaseTries = 10
       \<and> (\<forall>n. n \<le> ReleaseTries \<longrightarrow> sint (retry_delay n) = int (unat n ^ 4) * sint Second)
       \<and> (\<forall>n n'. n < n' \<and> n' \<le> ReleaseTries \<longrightarrow> sint (retry_delay n) < sint (retry_delay n'))"
proof (intro conjI allI impI)
  show "handleResult env job result = ([DeleteJob (Id_job job)], delete_reply env)"
    if "ExitStatus result = 0"
    using assms that by (simp add: handleResult_def)
  show "handleResult env job result =
          ([StatsReleases (Id_job job), ReleaseJob (Id_job job) (retry_delay r)], None)"
    if "ExitStatus result \<noteq> 0 \<and> releases_reply env = Inr r"
    using assms that by (simp add: handleResult_def)
  show "handleResult env job result =
          ([StatsReleases (Id_job job), ReleaseJob (Id_job job) (retry_delay ReleaseTries)], None)"
    if "ExitStatus result \<noteq> 0 \<and> releases_reply env = Inl err"
    using assms that by (simp add: handleResult_def)
  show "unat ReleaseTries = 10"
    by (simp add: ReleaseTries_def)
  have sec: "sint Second = 10 ^ 9"
    by (simp add: Second_def)
  show "sint (retry_delay n) = int (unat n ^ 4) * sint Second" if "n \<le> ReleaseTries" for n
  proof -
    from that have "unat n \<le> 309"
      by (simp add: ReleaseTries_def word_le_nat_alt)
    then have "sint (retry_delay n) = int (unat n ^ 4 * 10 ^ 9)"
      by (rule retry_delay_exact)
    then show ?thesis by (simp add: sec)
  qed
  show "sint (retry_delay n) < sint (retry_delay n')" if "n < n' \<and> n' \<le> ReleaseTries" for n n'
  proof -
    from that have "unat n' \<le> 309"
      by (simp add: ReleaseTries_def word_le_nat_alt)
    with that show ?thesis by (simp add: retry_delay_strict_mono)
  qed
qed

theorem handleResult_disposition_witness:
  "\<not> TimedOut failedResult
   \<and> handleResult sampleHandleEnv sampleJob failedResult =
       ([StatsReleases 7, ReleaseJob 7 (retry_delay 3)], None)
   \<and> sint (retry_delay 3) = 81 * sint Second
   \<and> sint (retry_delay 2) < sint (retry_delay 3)"
proof -
  have h: "\<not> TimedOut failedResult"
    by (simp add: failedResult_def zeroJobResult_def)
  note t = handleResult_disposition [OF h, where env = sampleHandleEnv and r = 3 and job = sampleJob]
  have e: "ExitStatus failedResult \<noteq> 0 \<and> releases_reply sampleHandleEnv = Inr 3"
    by (simp add: failedResult_def zeroJobResult_def sampleHandleEnv_def)
  have i: "Id_job sampleJob = 7"
    by (simp add: sampleJob_def)
  have le3: "(3::uint64) \<le> ReleaseTries" and lt23: "(2::uint64) < 3 \<and> (3::uint64) \<le> ReleaseTries"
    by (simp_all add: ReleaseTries_def)
  from t e i have a: "handleResult sampleHandleEnv sampleJob failedResult =
       ([StatsReleases 7, ReleaseJob 7 (retry_delay 3)], None)"
    by simp
  from t le3 have "sint (retry_delay 3) = int (unat (3::uint64) ^ 4) * sint Second"
    by blast
  then have b: "sint (retry_delay 3) = 81 * sint Second"
    by simp
  from t lt23 have c: "sint (retry_delay 2) < sint (retry_delay 3)"
    by blast
  from h a b c show ?thesis
    by blast
qed

text \<open>
  C3. When the result says the execution timed out, \<open>handleResult\<close> makes no request
  at all: no delete, no release, not even the query of the release count. It returns
  no error.
\<close>

theorem handleResult_timed_out:
  assumes "TimedOut result"
  shows "handleResult env job result = ([], None)"
  using assms by (simp add: handleResult_def)

theorem handleResult_timed_out_witness:
  "snd (executeJob sampleBroker timedOutEnv sampleJob ''/var/www/html/acme/worker'') =
     Some (timedOutResult, None)
   \<and> TimedOut timedOutResult
   \<and> handleResult sampleHandleEnv sampleJob timedOutResult = ([], None)"
proof -
  have h: "TimedOut timedOutResult"
    by (simp add: timedOutResult_def)
  from handleResult_timed_out [OF h, of sampleHandleEnv sampleJob] h
  show ?thesis
    by (simp add: executeJob_def timedOutEnv_def timedOutResult_def zeroJobResult_def
        prepend_def sampleJob_def)
qed

section \<open>What the traces contain\<close>

lemma reserve_trace_actions:
  "x \<in> set (fst (MustReserveWithoutTimeout rs)) \<Longrightarrow>
     (\<exists>d. x = ReserveCall d) \<or> (\<exists>d. x = Sleep d) \<or> (\<exists>e. x = LogError e)"
  by (induction rs rule: MustReserveWithoutTimeout.induct) (auto simp: prepend_def)

lemma reserve_trace_quiet:
  assumes "MustReserveWithoutTimeout rs = (t0, got)" and "x \<in> set t0"
  shows "\<not> supervisor_action x \<and> \<not> queue_operation x \<and> (\<forall>res. x \<noteq> Send res)"
  using reserve_trace_actions [of x rs] assms by auto

lemma requeue_actions:
  "x \<in> set (requeue b a job) \<Longrightarrow>
     x = ReleaseJob (Id_job job) (RequeueDelay (options b)) \<or> (\<exists>e. x = LogError e)
     \<or> x = Send (zeroJobResult\<lparr>JobId := Id_job job, Buried := True\<rparr>)"
  by (auto simp: requeue_def split: option.splits if_splits)

section \<open>Abandoning a job before it is executed\<close>

lemma iteration_abandon:
  assumes "MustReserveWithoutTimeout (reserve_replies a) = (t0, Got jid body)"
    and "(\<exists>t. timeouts_reply a = Inr t \<and> 1 \<le> t)
         \<or> (timeouts_reply a = Inr 0 \<and> (\<exists>r. run_releases_reply a = Inr r \<and> 10 \<le> r))"
  shows "iteration Decode b a =
           (t0 @ StatsTimeouts jid #
              (if timeouts_reply a = Inr 0 then [StatsReleases jid] else []) @
              requeue b a \<lparr>Id_job = jid, Body = body\<rparr>, Continue)"
  using assms
  by (auto simp: iteration_def TimeoutTries_def ReleaseTries_def Let_def)

text \<open>
  C1. Take a pass of the worker's loop in which a job is reserved. If the server
  reports at least one timeout for it, or no timeout and at least ten releases, the pass
  releases the job with the configured requeue delay and goes on to the next pass; the
  execution supervisor is never entered; every result the pass sends has \<open>Buried\<close>
  set and \<open>Executed\<close> clear, and one is sent when the release succeeds and there is a
  results channel.
\<close>

theorem pre_execution_abandon:
  assumes "MustReserveWithoutTimeout (reserve_replies a) = (t0, Got jid body)"
    and "(\<exists>t. timeouts_reply a = Inr t \<and> 1 \<le> t)
         \<or> (timeouts_reply a = Inr 0 \<and> (\<exists>r. run_releases_reply a = Inr r \<and> 10 \<le> r))"
  shows "\<exists>tr. iteration Decode b a = (tr, Continue)
           \<and> ReleaseJob jid (RequeueDelay (options b)) \<in> set tr
           \<and> (\<forall>x \<in> set tr. \<not> supervisor_action x)
           \<and> (\<forall>res. Send res \<in> set tr \<longrightarrow> Buried res \<and> \<not> Executed res \<and> JobId res = jid)
           \<and> (requeue_reply a = None \<and> results b \<longrightarrow>
                 (\<exists>res. Send res \<in> set tr))"
proof -
  let ?job = "\<lparr>Id_job = jid, Body = body\<rparr>"
  let ?mid = "StatsTimeouts jid # (if timeouts_reply a = Inr 0 then [StatsReleases jid] else [])"
  let ?tr = "t0 @ ?mid @ requeue b a ?job"
  have it: "iteration Decode b a = (?tr, Continue)"
    using iteration_abandon [OF assms] by simp
  have rel: "ReleaseJob jid (RequeueDelay (options b)) \<in> set ?tr"
    by (simp add: requeue_def)
  have quiet: "\<not> supervisor_action x" if "x \<in> set ?tr" for x
  proof -
    from that consider "x \<in> set t0" | "x \<in> set ?mid" | "x \<in> set (requeue b a ?job)"
      by auto
    then show ?thesis
    proof cases
      case 1
      with assms(1) show ?thesis by (simp add: reserve_trace_quiet)
    next
      case 2
      then show ?thesis by (auto split: if_splits)
    next
      case 3
      then show ?thesis using requeue_actions [of x b a ?job] by auto
    qed
  qed
  have sent: "Buried res \<and> \<not> Executed res \<and> JobId res = jid" if "Send res \<in> set ?tr" for res
  proof -
    from that consider "Send res \<in> set t0" | "Send res \<in> set ?mid"
      | "Send res \<in> set (requeue b a ?job)"
      by auto
    then show ?thesis
    proof cases
      case 1
      with assms(1) show ?thesis using reserve_trace_quiet [of "reserve_replies a" t0 _ "Send res"] by blast
    next
      case 2
      then show ?thesis by (auto split: if_splits)
    next
      case 3
      then show ?thesis using requeue_actions [of "Send res" b a ?job]
        by (auto simp: zeroJobResult_def)
    qed
  qed
  have emitted: "\<exists>res. Send res \<in> set ?tr" if "requeue_reply a = None \<and> results b"
    using that by (auto simp: requeue_def)
  from it rel quiet sent emitted show ?thesis
    by blast
qed

theorem pre_execution_abandon_witness:
  "MustReserveWithoutTimeout (reserve_replies timedOutBefore) =
     ([ReserveCall Hour, ReserveCall Hour], Got 7 (Body sampleJob))
   \<and> timeouts_reply timedOutBefore = Inr 1
   \<and> (\<exists>tr. iteration sampleDecode sampleBroker timedOutBefore = (tr, Continue)
           \<and> ReleaseJob 7 (RequeueDelay (options sampleBroker)) \<in> set tr
           \<and> (\<forall>x \<in> set tr. \<not> supervisor_action x)
           \<and> (\<forall>res. Send res \<in> set tr \<longrightarrow> Buried res \<and> \<not> Executed res \<and> JobId res = 7)
           \<and> (requeue_reply timedOutBefore = None \<and> results sampleBroker \<longrightarrow>
                 (\<exists>res. Send res \<in> set tr)))"
proof -
  have h1: "MustReserveWithoutTimeout (reserve_replies timedOutBefore) =
     ([ReserveCall Hour, ReserveCall Hour], Got 7 (Body sampleJob))"
    by (simp add: timedOutBefore_def prepend_def)
  have t: "timeouts_reply timedOutBefore = Inr 1"
    by (simp add: timedOutBefore_def)
  then have h2: "(\<exists>t. timeouts_reply timedOutBefore = Inr t \<and> 1 \<le> t)
         \<or> (timeouts_reply timedOutBefore = Inr 0
             \<and> (\<exists>r. run_releases_reply timedOutBefore = Inr r \<and> 10 \<le> r))"
    by simp
  from pre_execution_abandon [OF h1 h2, of sampleDecode sampleBroker] h1 t
  show ?thesis by blast
qed

section \<open>Resolving the working directory\<close>

lemma toLower_byte_lower:
  assumes "97 \<le> (of_char l :: nat)" and "(of_char l :: nat) \<le> 122"
  shows "toLower_byte c = l \<longleftrightarrow> same_letter c l"
proof (cases "65 \<le> (of_char c :: nat) \<and> (of_char c :: nat) \<le> 90")
  case True
  then have "toLower_byte c = char_of ((of_char c :: nat) + 32)"
    by (simp add: toLower_byte_def)
  moreover have "char_of ((of_char c :: nat) + 32) = l \<longleftrightarrow> (of_char c :: nat) + 32 = of_char l"
  proof
    assume "char_of ((of_char c :: nat) + 32) = l"
    then have "(of_char (char_of ((of_char c :: nat) + 32)) :: nat) = of_char l" by simp
    with True show "(of_char c :: nat) + 32 = of_char l" by simp
  next
    assume "(of_char c :: nat) + 32 = of_char l"
    then show "char_of ((of_char c :: nat) + 32) = l" by simp
  qed
  moreover from True assms have "c \<noteq> l" by auto
  ultimately show ?thesis by (simp add: same_letter_def)
next
  case False
  then have "toLower_byte c = c" by (auto simp add: toLower_byte_def)
  moreover from False assms have "(of_char c :: nat) + 32 \<noteq> of_char l" by auto
  ultimately show ?thesis by (simp add: same_letter_def)
qed

lemma ToLower_eq_lower:
  assumes "\<forall>l \<in> set ls. 97 \<le> (of_char l :: nat) \<and> (of_char l :: nat) \<le> 122"
  shows "ToLower d = ls \<longleftrightarrow> list_all2 same_letter d ls"
  using assms
proof (induction ls arbitrary: d)
  case Nil
  then show ?case by (simp add: ToLower_def)
next
  case (Cons l ls)
  then have l: "97 \<le> (of_char l :: nat)" "(of_char l :: nat) \<le> 122"
    and ls: "\<forall>l \<in> set ls. 97 \<le> (of_char l :: nat) \<and> (of_char l :: nat) \<le> 122"
    by simp_all
  show ?case
  proof (cases d)
    case Nil
    then show ?thesis by (simp add: ToLower_def)
  next
    case (Cons c cs)
    have "ToLower cs = ls \<longleftrightarrow> list_all2 same_letter cs ls"
      using Cons.IH [OF ls] .
    with Cons l show ?thesis
      by (simp add: ToLower_def toLower_byte_lower)
  qed
qed

lemma ToLower_cluster: "ToLower d = ''cluster'' \<longleftrightarrow> cluster_any_case d"
  unfolding cluster_any_case_def by (rule ToLower_eq_lower) simp

lemma findDomain_map_of:
  "findDomain m =
     (case map_of m (VString ''domain'') of
        None \<Rightarrow> Inl DomainMissing
      | Some (VString d) \<Rightarrow> Inr d
      | Some _ \<Rightarrow> Inl DomainNotString)"
  by (induction m rule: findDomain.induct) (auto split: phpvalue.splits)

text \<open>
  A Go map has one entry per key and \<open>range\<close> visits the entries in no fixed order:
  the answer of \<open>findDomain\<close> does not depend on the order.
\<close>

lemma findDomain_order:
  assumes "distinct (map fst m)" and "distinct (map fst m')" and "set m = set m'"
  shows "findDomain m = findDomain m'"
  using map_of_inject_set [OF assms(1,2)] assms(3) by (simp add: findDomain_map_of)

lemma getJobWD_ok:
  assumes "Decode (Body job) = Inr (VMap m)" and "map_of m (VString ''domain'') = Some (VString d)"
  shows "getJobWD Decode opts job =
           Inr (if cluster_any_case d then ClusterRoot opts @ ''/worker''
                else InstanceRoot opts @ ''/'' @ d @ ''/worker'')"
  using assms by (simp add: getJobWD_def findDomain_map_of ToLower_cluster)

lemma getJobWD_error_iff:
  "(\<exists>err. getJobWD Decode opts job = Inl err) \<longleftrightarrow>
     (\<exists>err. Decode (Body job) = Inl err)
     \<or> (\<exists>v. Decode (Body job) = Inr v \<and> (\<forall>m. v \<noteq> VMap m))
     \<or> (\<exists>m. Decode (Body job) = Inr (VMap m)
            \<and> (\<forall>d. map_of m (VString ''domain'') \<noteq> Some (VString d)))"
  by (auto simp: getJobWD_def findDomain_map_of split: sum.splits phpvalue.splits option.splits)

lemma iteration_without_wd:
  assumes "MustReserveWithoutTimeout (reserve_replies a) = (t0, Got jid body)"
    and "getJobWD Decode (options b) \<lparr>Id_job = jid, Body = body\<rparr> = Inl err"
    and "x \<in> set (fst (iteration Decode b a))"
  shows "\<not> supervisor_action x"
proof -
  let ?job = "\<lparr>Id_job = jid, Body = body\<rparr>"
  from assms(3) have "x \<in> set t0 \<or> x \<in> set (requeue b a ?job) \<or> (\<exists>e. x = LogError e)
      \<or> x = StatsTimeouts jid \<or> x = StatsReleases jid"
    using assms(1,2) by (auto simp: iteration_def Let_def split: sum.splits if_splits)
  then show ?thesis
    using reserve_trace_quiet [OF assms(1)] requeue_actions [of x b a ?job] by auto
qed

text \<open>
  C4. When the payload decodes to a map whose key \<open>domain\<close> holds a string \<open>d\<close>,
  \<open>getJobWD\<close> answers the cluster root followed by \<open>/worker\<close> if \<open>d\<close> equals
  \<open>cluster\<close> case-insensitively, and the instance root, \<open>/\<close>, \<open>d\<close> and \<open>/worker\<close>
  otherwise. It answers an error exactly when the payload does not decode, does not
  decode to a map, or has no string under the key \<open>domain\<close>. In a pass of the worker's
  loop that reserves a job for which \<open>getJobWD\<close> fails, the execution supervisor is
  never entered.
\<close>

theorem getJobWD_resolution:
  "(Decode (Body job) = Inr (VMap m) \<and> map_of m (VString ''domain'') = Some (VString d) \<longrightarrow>
      getJobWD Decode opts job =
        Inr (if cluster_any_case d then ClusterRoot opts @ ''/worker''
             else InstanceRoot opts @ ''/'' @ d @ ''/worker''))
   \<and> ((\<exists>err. Decode (Body job) = Inl err)
        \<or> (\<exists>v. Decode (Body job) = Inr v \<and> (\<forall>m. v \<noteq> VMap m))
        \<or> (\<exists>m. Decode (Body job) = Inr (VMap m)
               \<and> (\<forall>d. map_of m (VString ''domain'') \<noteq> Some (VString d)))
      \<longleftrightarrow> (\<exists>err. getJobWD Decode opts job = Inl err))
   \<and> (\<forall>b a t0 err.
         MustReserveWithoutTimeout (reserve_replies a) = (t0, Got (Id_job job) (Body job))
         \<and> getJobWD Decode (options b) job = Inl err \<longrightarrow>
         (\<forall>x \<in> set (fst (iteration Decode b a)). \<not> supervisor_action x))"
proof (intro conjI allI impI ballI)
  show "getJobWD Decode opts job =
        Inr (if cluster_any_case d then ClusterRoot opts @ ''/worker''
             else InstanceRoot opts @ ''/'' @ d @ ''/worker'')"
    if "Decode (Body job) = Inr (VMap m) \<and> map_of m (VString ''domain'') = Some (VString d)"
    using that by (simp add: getJobWD_ok)
  show "((\<exists>err. Decode (Body job) = Inl err)
        \<or> (\<exists>v. Decode (Body job) = Inr v \<and> (\<forall>m. v \<noteq> VMap m))
        \<or> (\<exists>m. Decode (Body job) = Inr (VMap m)
               \<and> (\<forall>d. map_of m (VString ''domain'') \<noteq> Some (VString d))))
      \<longleftrightarrow> (\<exists>err. getJobWD Decode opts job = Inl err)"
    by (rule getJobWD_error_iff [symmetric])
  show "\<not> supervisor_action x"
    if "MustReserveWithoutTimeout (reserve_replies a) = (t0, Got (Id_job job) (Body job))
         \<and> getJobWD Decode (options b) job = Inl err"
      and "x \<in> set (fst (iteration Decode b a))" for b a t0 err x
  proof -
    have eq: "\<lparr>Id_job = Id_job job, Body = Body job\<rparr> = job" by simp
    from that(1) have "getJobWD Decode (options b) \<lparr>Id_job = Id_job job, Body = Body job\<rparr> = Inl err"
      by (simp only: eq)
    with that show ?thesis
      using iteration_without_wd [of a t0 "Id_job job" "Body job" Decode b err x] by blast
  qed
qed

theorem getJobWD_resolution_witness:
  "sampleDecode (Body sampleJob) = Inr (VMap [(VString ''domain'', VString ''acme'')])
   \<and> getJobWD sampleDecode defaultOptions sampleJob = Inr ''/var/www/html/acme/worker''
   \<and> sampleDecode (Body clusterJob) = Inr (VMap [(VString ''domain'', VString ''Cluster'')])
   \<and> getJobWD sampleDecode defaultOptions clusterJob = Inr ''/opt/cluster/worker''
   \<and> sampleDecode (Body garbageJob) = Inl (Failure ''php unserialize failed'')
   \<and> (\<exists>err. getJobWD sampleDecode defaultOptions garbageJob = Inl err)
   \<and> filter supervisor_action (fst (iteration sampleDecode sampleBroker garbageAttempt)) = []"
proof -
  have d1: "sampleDecode (Body sampleJob) = Inr (VMap [(VString ''domain'', VString ''acme'')])"
    by (simp add: sampleDecode_def sampleJob_def)
  have d2: "sampleDecode (Body clusterJob) = Inr (VMap [(VString ''domain'', VString ''Cluster'')])"
    by (simp add: sampleDecode_def clusterJob_def)
  have d3: "sampleDecode (Body garbageJob) = Inl (Failure ''php unserialize failed'')"
    by (simp add: sampleDecode_def garbageJob_def)
  have c1: "\<not> cluster_any_case ''acme''" and c2: "cluster_any_case ''Cluster''"
    by (simp_all add: cluster_any_case_def same_letter_def)
  note r1 = getJobWD_resolution [where Decode = sampleDecode and job = sampleJob
      and m = "[(VString ''domain'', VString ''acme'')]" and d = "''acme''" and opts = defaultOptions]
  note r2 = getJobWD_resolution [where Decode = sampleDecode and job = clusterJob
      and m = "[(VString ''domain'', VString ''Cluster'')]" and d = "''Cluster''" and opts = defaultOptions]
  note r3 = getJobWD_resolution [where Decode = sampleDecode and job = garbageJob
      and opts = defaultOptions]
  from r1 d1 c1 have w1: "getJobWD sampleDecode defaultOptions sampleJob = Inr ''/var/www/html/acme/worker''"
    by (simp add: defaultOptions_def)
  from r2 d2 c2 have w2: "getJobWD sampleDecode defaultOptions clusterJob = Inr ''/opt/cluster/worker''"
    by (simp add: defaultOptions_def)
  from r3 d3 have w3: "\<exists>err. getJobWD sampleDecode defaultOptions garbageJob = Inl err"
    by blast
  have o: "options sampleBroker = defaultOptions"
    by (simp add: sampleBroker_def)
  have g: "MustReserveWithoutTimeout (reserve_replies garbageAttempt) =
      ([ReserveCall Hour], Got (Id_job garbageJob) (Body garbageJob))"
    by (simp add: garbageAttempt_def garbageJob_def)
  from r3 w3 g o have "\<forall>x \<in> set (fst (iteration sampleDecode sampleBroker garbageAttempt)). \<not> supervisor_action x"
    by metis
  then have w4: "filter supervisor_action (fst (iteration sampleDecode sampleBroker garbageAttempt)) = []"
    by (simp add: filter_empty_conv)
  from d1 w1 d2 w2 d3 w3 w4 show ?thesis by blast
qed

section \<open>The result of the supervisor\<close>

lemma stdoutReader_fields:
  "stdoutReader result evs = (tr, Some (res, err)) \<Longrightarrow>
     Executed res = Executed result \<and> JobId res = JobId result
     \<and> Buried res = Buried result \<and> Error res = Error result"
proof (induction result evs arbitrary: tr rule: stdoutReader.induct)
  case (3 result evs)
  then show ?case by (cases "stdoutReader (result\<lparr>TimedOut := True\<rparr>) evs") (auto simp: prepend_def)
qed auto

lemma waitLoop_fields:
  "waitLoop result err0 evs = (tr, Some (res, err)) \<Longrightarrow>
     Executed res = Executed result \<and> JobId res = JobId result
     \<and> Buried res = Buried result \<and> Error res = Error result"
proof (induction result err0 evs arbitrary: tr rule: waitLoop.induct)
  case (3 result err evs)
  then show ?case by (cases "waitLoop (result\<lparr>TimedOut := True\<rparr>) err evs") (auto simp: prepend_def)
qed auto

lemma executeJob_fields:
  assumes "executeJob b env job cwd = (tr, Some (res, err))"
  shows "Executed res \<and> JobId res = Id_job job \<and> \<not> Buried res \<and> Error res = None"
proof -
  let ?r0 = "zeroJobResult\<lparr>JobId := Id_job job, Executed := True\<rparr>"
  have r0: "Executed ?r0 \<and> JobId ?r0 = Id_job job \<and> \<not> Buried ?r0 \<and> Error ?r0 = None"
    by (simp add: zeroJobResult_def)
  show ?thesis
  proof (cases "snd (time_left env)")
    case (Some e)
    with assms r0 show ?thesis by (auto simp: executeJob_def Let_def)
  next
    case tl: None
    show ?thesis
    proof (cases "new_command env")
      case (Some e)
      with assms r0 tl show ?thesis by (auto simp: executeJob_def Let_def)
    next
      case nc: None
      show ?thesis
      proof (cases "start env")
        case (Some e)
        with assms r0 tl nc show ?thesis by (auto simp: executeJob_def Let_def)
      next
        case st: None
        obtain t3 o3 where sr: "stdoutReader ?r0 (out_events env) = (t3, o3)"
          by (cases "stdoutReader ?r0 (out_events env)")
        show ?thesis
        proof (cases o3)
          case None
          with assms tl nc st sr show ?thesis by (simp add: executeJob_def Let_def)
        next
          case (Some p)
          obtain r1 e1 where p: "p = (r1, e1)" by (cases p)
          from sr Some p have k1: "Executed r1 \<and> JobId r1 = Id_job job \<and> \<not> Buried r1 \<and> Error r1 = None"
            using stdoutReader_fields [of ?r0 "out_events env" t3 r1 e1] r0 by simp
          show ?thesis
          proof (cases e1)
            case (Some e)
            with assms tl nc st sr \<open>o3 = Some p\<close> p k1 show ?thesis
              by (simp add: executeJob_def Let_def)
          next
            case None
            obtain t4 o4 where wl: "waitLoop r1 None (wait_events env) = (t4, o4)"
              by (cases "waitLoop r1 None (wait_events env)")
            with assms tl nc st sr \<open>o3 = Some p\<close> p None
            have "o4 = Some (res, err)"
              by (simp add: executeJob_def Let_def prepend_def)
            with wl k1 show ?thesis
              using waitLoop_fields [of r1 None "wait_events env" t4 res err] by simp
          qed
        qed
      qed
    qed
  qed
qed

text \<open>
  C10. Every result \<open>executeJob\<close> returns has \<open>Executed\<close> set. The flag is set in
  the literal the function starts from, so the result has it also when the query of the
  time left fails, when the command cannot be built (nothing has been started then) and
  when the process cannot be started; in these three cases the function does return,
  with the error and with the starting literal as its result.
\<close>

theorem executeJob_Executed:
  "(\<forall>tr res err. executeJob b env job cwd = (tr, Some (res, err)) \<longrightarrow> Executed res)
   \<and> (snd (time_left env) = Some e \<longrightarrow>
        executeJob b env job cwd =
          ([StatsTimeLeft (Id_job job), NewTimer (fst (time_left env) + ttrMargin)],
           Some (zeroJobResult\<lparr>JobId := Id_job job, Executed := True\<rparr>, Some e)))
   \<and> (snd (time_left env) = None \<and> new_command env = Some e \<longrightarrow>
        (\<exists>tr. executeJob b env job cwd =
                (tr, Some (zeroJobResult\<lparr>JobId := Id_job job, Executed := True\<rparr>, Some e))
              \<and> (\<forall>body. StartWithStdin body \<notin> set tr)))
   \<and> (snd (time_left env) = None \<and> new_command env = None \<and> start env = Some e \<longrightarrow>
        (\<exists>tr. executeJob b env job cwd =
                (tr, Some (zeroJobResult\<lparr>JobId := Id_job job, Executed := True\<rparr>, Some e))))"
proof (intro conjI allI impI)
  show "Executed res" if "executeJob b env job cwd = (tr, Some (res, err))" for tr res err
    using executeJob_fields [OF that] by simp
qed (auto simp: executeJob_def Let_def)

theorem executeJob_Executed_witness:
  "snd (time_left brokenConnEnv) = Some (ConnError (ErrOther ''EOF''))
   \<and> executeJob sampleBroker brokenConnEnv sampleJob ''/var/www/html/acme/worker'' =
       ([StatsTimeLeft 7, NewTimer ttrMargin],
        Some (zeroJobResult\<lparr>JobId := 7, Executed := True\<rparr>, Some (ConnError (ErrOther ''EOF''))))
   \<and> Executed (zeroJobResult\<lparr>JobId := 7, Executed := True\<rparr>)"
proof -
  have h: "snd (time_left brokenConnEnv) = Some (ConnError (ErrOther ''EOF''))"
    and z: "fst (time_left brokenConnEnv) = 0"
    by (simp_all add: brokenConnEnv_def)
  note t = executeJob_Executed [where env = brokenConnEnv and e = "ConnError (ErrOther ''EOF'')"
      and b = sampleBroker and job = sampleJob and cwd = "''/var/www/html/acme/worker''"]
  have i: "Id_job sampleJob = 7" by (simp add: sampleJob_def)
  from t h z i have a: "executeJob sampleBroker brokenConnEnv sampleJob ''/var/www/html/acme/worker'' =
       ([StatsTimeLeft 7, NewTimer ttrMargin],
        Some (zeroJobResult\<lparr>JobId := 7, Executed := True\<rparr>, Some (ConnError (ErrOther ''EOF''))))"
    by simp
  with t have "Executed (zeroJobResult\<lparr>JobId := 7, Executed := True\<rparr>)"
    by blast
  with h a show ?thesis by blast
qed

section \<open>The calls of the supervisor\<close>

lemma stdoutReader_trace: "x \<in> set (fst (stdoutReader result evs)) \<Longrightarrow> x = Terminate"
  by (induction result evs rule: stdoutReader.induct) (auto simp: prepend_def)

lemma waitLoop_trace:
  "x \<in> set (fst (waitLoop result err evs)) \<Longrightarrow> x = Terminate \<or> x = TimerStop"
  by (induction result err evs rule: waitLoop.induct) (auto simp: prepend_def)

lemma executeJob_trace:
  assumes "x \<in> set (fst (executeJob b env job cwd))"
  shows "supervisor_action x"
proof -
  let ?r0 = "zeroJobResult\<lparr>JobId := Id_job job, Executed := True\<rparr>"
  obtain t3 o3 where sr: "stdoutReader ?r0 (out_events env) = (t3, o3)"
    by (cases "stdoutReader ?r0 (out_events env)")
  have t3: "\<forall>y \<in> set t3. supervisor_action y"
    using stdoutReader_trace [of _ ?r0 "out_events env"] sr by fastforce
  have t4: "\<forall>r. \<forall>y \<in> set (fst (waitLoop r None (wait_events env))). supervisor_action y"
    using waitLoop_trace by fastforce
  from assms sr have "x = StatsTimeLeft (Id_job job) \<or> (\<exists>d. x = NewTimer d)
      \<or> (\<exists>args. x = NewCommand cwd args) \<or> x = StartWithStdin (Body job) \<or> x \<in> set t3
      \<or> (\<exists>r. x \<in> set (fst (waitLoop r None (wait_events env))))"
    by (auto simp: executeJob_def Let_def prepend_def split: option.splits prod.splits)
  with t3 t4 show ?thesis by auto
qed

section \<open>The deadline timer\<close>

lemma stdoutReader_data:
  "stdoutReader result (map OutData ds @ evs) =
     stdoutReader (result\<lparr>Stdout := Stdout result @ concat ds\<rparr>) evs"
  by (induction ds arbitrary: result) simp_all

lemma stdoutReader_no_timer:
  "\<forall>ev \<in> set evs. \<forall>r. ev \<noteq> OutTimer r \<Longrightarrow>
     fst (stdoutReader result evs) = []
     \<and> (\<forall>res e. snd (stdoutReader result evs) = Some (res, e) \<longrightarrow>
           TimedOut res = TimedOut result \<and> e = None)"
  by (induction result evs rule: stdoutReader.induct) simp_all

lemma waitLoop_no_timer:
  "WaitTimer \<notin> set evs \<Longrightarrow>
     Terminate \<notin> set (fst (waitLoop result err evs))
     \<and> (\<forall>res e. snd (waitLoop result err evs) = Some (res, e) \<longrightarrow> TimedOut res = TimedOut result)"
  by (induction result err evs rule: waitLoop.induct) auto

lemma stdoutReader_TimedOut:
  "snd (stdoutReader result evs) = Some (res, e) \<Longrightarrow> TimedOut res \<Longrightarrow>
     TimedOut result \<or> Terminate \<in> set (fst (stdoutReader result evs))"
  by (induction result evs rule: stdoutReader.induct) (auto simp: prepend_def)

lemma waitLoop_TimedOut:
  "snd (waitLoop result err evs) = Some (res, e) \<Longrightarrow> TimedOut res \<Longrightarrow>
     TimedOut result \<or> Terminate \<in> set (fst (waitLoop result err evs))"
  by (induction result err evs rule: waitLoop.induct) (auto simp: prepend_def)

text \<open>Once the process is started, \<open>executeJob\<close> is its two loops.\<close>

lemma executeJob_started:
  assumes "snd (time_left env) = None" and "new_command env = None" and "start env = None"
  shows "executeJob b env job cwd =
     (case stdoutReader (startedResult job) (out_events env) of
        (t3, None) \<Rightarrow> (start_calls b env job cwd @ t3, None)
      | (t3, Some (result', Some err)) \<Rightarrow> (start_calls b env job cwd @ t3, Some (result', Some err))
      | (t3, Some (result', None)) \<Rightarrow>
          prepend (start_calls b env job cwd @ t3) (waitLoop result' None (wait_events env)))"
  using assms
  by (simp add: executeJob_def startedResult_def start_calls_def Let_def
      split: prod.splits option.splits)

lemma executeJob_arms_timer:
  "\<exists>tr. fst (executeJob b env job cwd) =
          StatsTimeLeft (Id_job job) # NewTimer (fst (time_left env) + ttrMargin) # tr
        \<and> (\<forall>d. NewTimer d \<notin> set tr)"
proof -
  let ?r0 = "zeroJobResult\<lparr>JobId := Id_job job, Executed := True\<rparr>"
  obtain t3 o3 where sr: "stdoutReader ?r0 (out_events env) = (t3, o3)"
    by (cases "stdoutReader ?r0 (out_events env)")
  have t3: "\<forall>d. NewTimer d \<notin> set t3"
    using stdoutReader_trace [of _ ?r0 "out_events env"] sr by fastforce
  have t4: "\<forall>r d. NewTimer d \<notin> set (fst (waitLoop r None (wait_events env)))"
    using waitLoop_trace by fastforce
  show ?thesis
    using sr t3 t4
    by (auto simp: executeJob_def Let_def prepend_def split: option.splits prod.splits)
qed

lemma executeJob_no_timer:
  assumes "\<forall>r. OutTimer r \<notin> set (out_events env)" and "WaitTimer \<notin> set (wait_events env)"
  shows "Terminate \<notin> set (fst (executeJob b env job cwd))
       \<and> (\<forall>tr res e. executeJob b env job cwd = (tr, Some (res, e)) \<longrightarrow> \<not> TimedOut res)"
proof -
  let ?r0 = "zeroJobResult\<lparr>JobId := Id_job job, Executed := True\<rparr>"
  obtain t3 o3 where sr: "stdoutReader ?r0 (out_events env) = (t3, o3)"
    by (cases "stdoutReader ?r0 (out_events env)")
  from assms(1) have "\<forall>ev \<in> set (out_events env). \<forall>r. ev \<noteq> OutTimer r"
    by blast
  from stdoutReader_no_timer [OF this, of ?r0] sr
  have t3: "t3 = []" and o3: "\<forall>res e. o3 = Some (res, e) \<longrightarrow> \<not> TimedOut res \<and> e = None"
    by (simp_all add: zeroJobResult_def)
  have r0: "\<not> TimedOut ?r0" by (simp add: zeroJobResult_def)
  show ?thesis
  proof (cases o3)
    case None
    with sr t3 r0 show ?thesis
      by (auto simp: executeJob_def Let_def split: option.splits)
  next
    case (Some p)
    obtain r1 e1 where p: "p = (r1, e1)" by (cases p)
    with Some o3 have r1: "\<not> TimedOut r1" and e1: "e1 = None" by simp_all
    obtain t4 o4 where wl: "waitLoop r1 None (wait_events env) = (t4, o4)"
      by (cases "waitLoop r1 None (wait_events env)")
    from waitLoop_no_timer [OF assms(2), of r1 None] wl r1
    have t4: "Terminate \<notin> set t4" and o4: "\<forall>res e. o4 = Some (res, e) \<longrightarrow> \<not> TimedOut res"
      by simp_all
    from sr t3 Some p e1 wl t4 o4 r0 show ?thesis
      by (auto simp: executeJob_def Let_def prepend_def split: option.splits)
  qed
qed

lemma executeJob_TimedOut_Terminate:
  assumes "executeJob b env job cwd = (tr, Some (res, e))" and "TimedOut res"
  shows "Terminate \<in> set tr"
proof -
  let ?r0 = "zeroJobResult\<lparr>JobId := Id_job job, Executed := True\<rparr>"
  have r0: "\<not> TimedOut ?r0" by (simp add: zeroJobResult_def)
  obtain t3 o3 where sr: "stdoutReader ?r0 (out_events env) = (t3, o3)"
    by (cases "stdoutReader ?r0 (out_events env)")
  show ?thesis
  proof (cases "snd (time_left env) = None \<and> new_command env = None \<and> start env = None")
    case False
    with assms r0 show ?thesis
      by (auto simp: executeJob_def Let_def split: option.splits)
  next
    case True
    show ?thesis
    proof (cases o3)
      case None
      with assms True sr show ?thesis by (simp add: executeJob_def Let_def)
    next
      case (Some p)
      obtain r1 e1 where p: "p = (r1, e1)" by (cases p)
      from stdoutReader_TimedOut [of ?r0 "out_events env" r1 e1] sr Some p r0
      have k: "TimedOut r1 \<Longrightarrow> Terminate \<in> set t3" by simp
      show ?thesis
      proof (cases e1)
        case (Some err)
        with assms True sr \<open>o3 = Some p\<close> p k show ?thesis
          by (auto simp: executeJob_def Let_def)
      next
        case None
        obtain t4 o4 where wl: "waitLoop r1 None (wait_events env) = (t4, o4)"
          by (cases "waitLoop r1 None (wait_events env)")
        with assms True sr \<open>o3 = Some p\<close> p None
        have tr: "tr = start_calls b env job cwd @ t3 @ t4" and o4: "o4 = Some (res, e)"
          by (simp_all add: executeJob_def Let_def prepend_def start_calls_def)
        from waitLoop_TimedOut [of r1 None "wait_events env" res e] wl o4 assms(2)
        have "TimedOut r1 \<or> Terminate \<in> set t4" by simp
        with k tr show ?thesis by auto
      qed
    qed
  qed
qed

text \<open>
  C5 (as the code has it). \<open>executeJob\<close> arms one timer, for the time left plus
  \<open>ttrMargin\<close>, which is one second, and no other: the same timer is read in the loop
  that drains the output and in the loop that waits for the exit status. What follows
  is in terms of the order in which the runtime delivers the timer, the output and the
  wait result. If the timer is never delivered, terminate is never called and no
  returned result has \<open>TimedOut\<close>; a result has \<open>TimedOut\<close> only if terminate was
  called. Once the process is started: if the output closes and the wait result arrives
  before the timer, the result carries the output and the exit status and the process is
  not terminated; if the timer comes while the output is drained and terminate succeeds,
  draining goes on and the result has \<open>TimedOut\<close>; if the timer comes during the wait,
  terminate is called and the result has \<open>TimedOut\<close>; if the timer comes while the
  output is drained and terminate fails, \<open>executeJob\<close> returns that error at once and
  the result does not have \<open>TimedOut\<close>.
\<close>

theorem deadline_enforcement:
  "(\<exists>tr. fst (executeJob b env job cwd) =
           StatsTimeLeft (Id_job job) # NewTimer (fst (time_left env) + ttrMargin) # tr
         \<and> (\<forall>d. NewTimer d \<notin> set tr))
   \<and> sint ttrMargin = sint Second
   \<and> ((\<forall>r. OutTimer r \<notin> set (out_events env)) \<and> WaitTimer \<notin> set (wait_events env) \<longrightarrow>
        Terminate \<notin> set (fst (executeJob b env job cwd))
        \<and> (\<forall>tr res e. executeJob b env job cwd = (tr, Some (res, e)) \<longrightarrow> \<not> TimedOut res))
   \<and> (\<forall>tr res e. executeJob b env job cwd = (tr, Some (res, e)) \<and> TimedOut res \<longrightarrow>
        Terminate \<in> set tr)
   \<and> (snd (time_left env) = None \<and> new_command env = None \<and> start env = None \<longrightarrow>
        (out_events env = map OutData ds @ OutClosed # evs
           \<and> wait_events env = WaitResult werr status # wevs \<longrightarrow>
         executeJob b env job cwd =
           (start_calls b env job cwd @ [TimerStop],
            Some ((startedResult job)\<lparr>Stdout := concat ds, ExitStatus := status\<rparr>, None)))
      \<and> (out_events env = map OutData ds @ OutTimer None # map OutData ds' @ OutClosed # evs
           \<and> wait_events env = WaitResult werr status # wevs \<longrightarrow>
         executeJob b env job cwd =
           (start_calls b env job cwd @ [Terminate, TimerStop],
            Some ((startedResult job)\<lparr>Stdout := concat ds @ concat ds', TimedOut := True,
                    ExitStatus := status\<rparr>, None)))
      \<and> (out_events env = map OutData ds @ OutClosed # evs
           \<and> wait_events env = WaitTimer # WaitResult werr status # wevs \<longrightarrow>
         executeJob b env job cwd =
           (start_calls b env job cwd @ [Terminate, TimerStop],
            Some ((startedResult job)\<lparr>Stdout := concat ds, TimedOut := True,
                    ExitStatus := status\<rparr>, None)))
      \<and> (out_events env = map OutData ds @ OutTimer (Some err) # evs \<longrightarrow>
         executeJob b env job cwd =
           (start_calls b env job cwd @ [Terminate],
            Some ((startedResult job)\<lparr>Stdout := concat ds\<rparr>, Some err))))"
proof (intro conjI impI allI)
  show "\<exists>tr. fst (executeJob b env job cwd) =
           StatsTimeLeft (Id_job job) # NewTimer (fst (time_left env) + ttrMargin) # tr
         \<and> (\<forall>d. NewTimer d \<notin> set tr)"
    by (rule executeJob_arms_timer)
  show "sint ttrMargin = sint Second"
    by (simp add: ttrMargin_def)
  show "Terminate \<notin> set (fst (executeJob b env job cwd))"
    if "(\<forall>r. OutTimer r \<notin> set (out_events env)) \<and> WaitTimer \<notin> set (wait_events env)"
    using that executeJob_no_timer [of env b job cwd] by blast
  show "\<not> TimedOut res"
    if "(\<forall>r. OutTimer r \<notin> set (out_events env)) \<and> WaitTimer \<notin> set (wait_events env)"
      and "executeJob b env job cwd = (tr, Some (res, e))" for tr res e
    using that executeJob_no_timer [of env b job cwd] by blast
  show "Terminate \<in> set tr"
    if "executeJob b env job cwd = (tr, Some (res, e)) \<and> TimedOut res" for tr res e
    using that executeJob_TimedOut_Terminate [of b env job cwd tr res e] by blast
next
  assume ok: "snd (time_left env) = None \<and> new_command env = None \<and> start env = None"
  then have ex: "executeJob b env job cwd =
     (case stdoutReader (startedResult job) (out_events env) of
        (t3, None) \<Rightarrow> (start_calls b env job cwd @ t3, None)
      | (t3, Some (result', Some err)) \<Rightarrow> (start_calls b env job cwd @ t3, Some (result', Some err))
      | (t3, Some (result', None)) \<Rightarrow>
          prepend (start_calls b env job cwd @ t3) (waitLoop result' None (wait_events env)))"
    by (simp add: executeJob_started)
  have s0: "Stdout (startedResult job) = []"
    by (simp add: startedResult_def zeroJobResult_def)
  show "executeJob b env job cwd =
           (start_calls b env job cwd @ [TimerStop],
            Some ((startedResult job)\<lparr>Stdout := concat ds, ExitStatus := status\<rparr>, None))"
    if "out_events env = map OutData ds @ OutClosed # evs
           \<and> wait_events env = WaitResult werr status # wevs"
    using that by (simp add: ex stdoutReader_data s0 prepend_def)
  show "executeJob b env job cwd =
           (start_calls b env job cwd @ [Terminate, TimerStop],
            Some ((startedResult job)\<lparr>Stdout := concat ds @ concat ds', TimedOut := True,
                    ExitStatus := status\<rparr>, None))"
    if "out_events env = map OutData ds @ OutTimer None # map OutData ds' @ OutClosed # evs
           \<and> wait_events env = WaitResult werr status # wevs"
    using that by (simp add: ex stdoutReader_data s0 prepend_def)
  show "executeJob b env job cwd =
           (start_calls b env job cwd @ [Terminate, TimerStop],
            Some ((startedResult job)\<lparr>Stdout := concat ds, TimedOut := True,
                    ExitStatus := status\<rparr>, None))"
    if "out_events env = map OutData ds @ OutClosed # evs
           \<and> wait_events env = WaitTimer # WaitResult werr status # wevs"
    using that by (simp add: ex stdoutReader_data s0 prepend_def)
  show "executeJob b env job cwd =
           (start_calls b env job cwd @ [Terminate],
            Some ((startedResult job)\<lparr>Stdout := concat ds\<rparr>, Some err))"
    if "out_events env = map OutData ds @ OutTimer (Some err) # evs"
    using that by (simp add: ex stdoutReader_data s0 prepend_def)
qed

theorem deadline_enforcement_witness:
  "snd (time_left timedOutEnv) = None \<and> new_command timedOutEnv = None \<and> start timedOutEnv = None
   \<and> out_events timedOutEnv = map OutData [''x''] @ OutTimer None # map OutData [] @ OutClosed # []
   \<and> wait_events timedOutEnv = WaitResult None (- 1) # []
   \<and> executeJob sampleBroker timedOutEnv sampleJob ''/var/www/html/acme/worker'' =
       (start_calls sampleBroker timedOutEnv sampleJob ''/var/www/html/acme/worker''
          @ [Terminate, TimerStop],
        Some ((startedResult sampleJob)\<lparr>Stdout := ''x'', TimedOut := True, ExitStatus := - 1\<rparr>,
              None))"
proof -
  have ok: "snd (time_left timedOutEnv) = None \<and> new_command timedOutEnv = None
      \<and> start timedOutEnv = None"
    by (simp add: timedOutEnv_def)
  have ev: "out_events timedOutEnv =
        map OutData [''x''] @ OutTimer None # map OutData [] @ OutClosed # []
      \<and> wait_events timedOutEnv = WaitResult None (- 1) # []"
    by (simp add: timedOutEnv_def)
  note t = deadline_enforcement [where env = timedOutEnv and b = sampleBroker and job = sampleJob
      and cwd = "''/var/www/html/acme/worker''" and ds = "[''x'']" and ds' = "[]" and evs = "[]"
      and werr = None and status = "- 1" and wevs = "[]"]
  from t ok ev have "executeJob sampleBroker timedOutEnv sampleJob ''/var/www/html/acme/worker'' =
       (start_calls sampleBroker timedOutEnv sampleJob ''/var/www/html/acme/worker''
          @ [Terminate, TimerStop],
        Some ((startedResult sampleJob)\<lparr>Stdout := concat [''x''] @ concat [], TimedOut := True,
                ExitStatus := - 1\<rparr>, None))"
    by blast
  then have "executeJob sampleBroker timedOutEnv sampleJob ''/var/www/html/acme/worker'' =
       (start_calls sampleBroker timedOutEnv sampleJob ''/var/www/html/acme/worker''
          @ [Terminate, TimerStop],
        Some ((startedResult sampleJob)\<lparr>Stdout := ''x'', TimedOut := True, ExitStatus := - 1\<rparr>,
              None))"
    by simp
  with ok ev show ?thesis by blast
qed

theorem deadline_counterexample:
  "executeJob sampleBroker terminateFailsEnv sampleJob ''/var/www/html/acme/worker'' =
     ([StatsTimeLeft 7, NewTimer (30 * Second + ttrMargin),
       NewCommand ''/var/www/html/acme/worker''
         [''/usr/bin/php'', ''-c'', ''/etc/php.ini'', ''index.php'', ''/Core/Job/Console''],
       StartWithStdin (Body sampleJob), Terminate],
      Some (zeroJobResult\<lparr>JobId := 7, Executed := True, Stdout := ''x''\<rparr>,
            Some (Failure ''os: process already finished'')))
   \<and> \<not> TimedOut (zeroJobResult\<lparr>JobId := 7, Executed := True, Stdout := ''x''\<rparr>)"
  by (simp add: executeJob_def terminateFailsEnv_def sampleBroker_def defaultOptions_def
      sampleJob_def zeroJobResult_def)

section \<open>Errors in a job attempt\<close>

lemma Run_loop_prefix:
  assumes "\<forall>p \<in> set pre. snd (iteration Decode b p) = Continue"
  shows "Run_loop Decode b (pre @ ticks) closed =
           prepend (passes Decode b pre) (Run_loop Decode b ticks closed)"
  using assms
proof (induction pre)
  case Nil
  then show ?case by (simp add: passes_def prepend_def)
next
  case (Cons p pre)
  then have c: "snd (iteration Decode b p) = Continue"
    and IH: "Run_loop Decode b (pre @ ticks) closed =
           prepend (passes Decode b pre) (Run_loop Decode b ticks closed)"
    by simp_all
  obtain tr where it: "iteration Decode b p = (tr, Continue)"
    using c by (cases "iteration Decode b p") simp
  show ?case by (simp add: it IH passes_def prepend_def)
qed

lemma Run_after_passes:
  assumes "\<forall>p \<in> set pre. snd (iteration Decode b p) = Continue"
    and "iteration Decode b a = (tr, how)" and "how = Return \<or> how = Crash"
  shows "Run Decode b None (pre @ a # ticks) closed =
           (Dial (Address_b b) # passes Decode b pre @ tr @ [Fin],
            if how = Return then Returned else Panicked)"
  using assms(2,3) by (auto simp: Run_def Run_loop_prefix [OF assms(1)] prepend_def)

lemma sampleJob_wd:
  "getJobWD sampleDecode defaultOptions \<lparr>Id_job = 7, Body = Body sampleJob\<rparr> =
     Inr ''/var/www/html/acme/worker''"
  by (simp add: getJobWD_def sampleDecode_def sampleJob_def ToLower_cluster cluster_any_case_def
      same_letter_def defaultOptions_def)

text \<open>
  C6 (as the code has it). Take any pass of the worker's loop, after any number of
  passes that went through, that reserves a job whose counters are below both limits. If the payload
  does not resolve to a working directory, or if \<open>executeJob\<close> returns an error (the
  query of the time left, the construction of the command, the start of the process or a
  terminate call failed), the worker logs the error and \<open>Run\<close> returns: \<open>fin\<close> fires
  and the tokens that remain are never taken. In that pass the worker issues no delete
  and no release and sends no result.
\<close>

theorem job_error_stops_worker:
  assumes "\<forall>p \<in> set pre. snd (iteration Decode b p) = Continue"
    and "MustReserveWithoutTimeout (reserve_replies a) = (t0, Got jid body)"
    and "timeouts_reply a = Inr t" and "t < TimeoutTries"
    and "run_releases_reply a = Inr r" and "r < ReleaseTries"
    and "getJobWD Decode (options b) \<lparr>Id_job = jid, Body = body\<rparr> = Inl err
         \<or> (\<exists>wd t3 res. getJobWD Decode (options b) \<lparr>Id_job = jid, Body = body\<rparr> = Inr wd
               \<and> executeJob b (exec a) \<lparr>Id_job = jid, Body = body\<rparr> wd = (t3, Some (res, Some err)))"
  shows "\<exists>tr. Run Decode b None (pre @ a # ticks) closed =
                (Dial (Address_b b) # passes Decode b pre @ tr @ [LogError err, Fin], Returned)
            \<and> (\<forall>x \<in> set tr. \<not> queue_operation x \<and> (\<forall>res. x \<noteq> Send res))"
proof -
  let ?job = "\<lparr>Id_job = jid, Body = body\<rparr>"
  let ?t2 = "t0 @ [StatsTimeouts jid, StatsReleases jid]"
  have quiet0: "\<not> queue_operation x \<and> (\<forall>res. x \<noteq> Send res)" if "x \<in> set ?t2" for x
    using that reserve_trace_quiet [OF assms(2), of x] by auto
  from assms(7) show ?thesis
  proof
    assume wd: "getJobWD Decode (options b) ?job = Inl err"
    with assms(2-6) have it: "iteration Decode b a = (?t2 @ [LogError err], Return)"
      by (simp add: iteration_def Let_def not_le)
    have "Run Decode b None (pre @ a # ticks) closed =
        (Dial (Address_b b) # passes Decode b pre @ ?t2 @ [LogError err, Fin], Returned)"
      using Run_after_passes [OF assms(1) it, of ticks closed] by simp
    moreover have "\<forall>x \<in> set ?t2. \<not> queue_operation x \<and> (\<forall>res. x \<noteq> Send res)"
      using quiet0 by blast
    ultimately show ?thesis by blast
  next
    assume "\<exists>wd t3 res. getJobWD Decode (options b) ?job = Inr wd
               \<and> executeJob b (exec a) ?job wd = (t3, Some (res, Some err))"
    then obtain wd t3 res where wd: "getJobWD Decode (options b) ?job = Inr wd"
      and ex: "executeJob b (exec a) ?job wd = (t3, Some (res, Some err))"
      by blast
    with assms(2-6) have it: "iteration Decode b a = ((?t2 @ t3) @ [LogError err], Return)"
      by (simp add: iteration_def Let_def not_le)
    have "Run Decode b None (pre @ a # ticks) closed =
        (Dial (Address_b b) # passes Decode b pre @ (?t2 @ t3) @ [LogError err, Fin], Returned)"
      using Run_after_passes [OF assms(1) it, of ticks closed] by simp
    moreover have "\<not> queue_operation x \<and> (\<forall>res. x \<noteq> Send res)" if "x \<in> set t3" for x
    proof -
      from that ex have "supervisor_action x"
        using executeJob_trace [of x b "exec a" ?job wd] by simp
      then show ?thesis by (cases x) simp_all
    qed
    then have "\<forall>x \<in> set (?t2 @ t3). \<not> queue_operation x \<and> (\<forall>res. x \<noteq> Send res)"
      using quiet0 by auto
    ultimately show ?thesis by blast
  qed
qed

lemma successfulAttempt_pass:
  "iteration sampleDecode sampleBroker successfulAttempt =
     ([ReserveCall Hour, StatsTimeouts 8, StatsReleases 8, StatsTimeLeft 8,
       NewTimer (30 * Second + ttrMargin),
       NewCommand ''/opt/cluster/worker''
         [''/usr/bin/php'', ''-c'', ''/etc/php.ini'', ''index.php'', ''/Core/Job/Console''],
       StartWithStdin (Body clusterJob), TimerStop, DeleteJob 8,
       Send (zeroJobResult\<lparr>JobId := 8, Executed := True, Stdout := ''ok''\<rparr>)], Continue)"
proof -
  have wd: "getJobWD sampleDecode defaultOptions \<lparr>Id_job = 8, Body = Body clusterJob\<rparr> =
      Inr ''/opt/cluster/worker''"
    by (simp add: getJobWD_def sampleDecode_def clusterJob_def ToLower_cluster cluster_any_case_def
        same_letter_def defaultOptions_def)
  show ?thesis
    by (simp add: iteration_def successfulAttempt_def wd executeJob_def handleResult_def
        sampleHandleEnv_def TimeoutTries_def ReleaseTries_def sampleBroker_def prepend_def
        zeroJobResult_def)
      (simp add: defaultOptions_def)
qed

theorem job_error_stops_worker_witness:
  "snd (iteration sampleDecode sampleBroker successfulAttempt) = Continue
   \<and> MustReserveWithoutTimeout (reserve_replies garbageAttempt) = ([ReserveCall Hour], Got 9 ''garbage'')
   \<and> timeouts_reply garbageAttempt = Inr 0 \<and> 0 < TimeoutTries
   \<and> run_releases_reply garbageAttempt = Inr 0 \<and> 0 < ReleaseTries
   \<and> getJobWD sampleDecode (options sampleBroker) \<lparr>Id_job = 9, Body = ''garbage''\<rparr> =
        Inl (UnserializeFailed (Failure ''php unserialize failed''))
   \<and> (\<exists>tr. Run sampleDecode sampleBroker None
              [successfulAttempt, garbageAttempt, successfulAttempt] False =
              (Dial (Address_b sampleBroker) # passes sampleDecode sampleBroker [successfulAttempt]
                 @ tr @ [LogError (UnserializeFailed (Failure ''php unserialize failed'')), Fin],
               Returned))
   \<and> (\<exists>tr. Run sampleDecode sampleBroker None
              [successfulAttempt, spawnFailureAttempt, successfulAttempt] False =
              (Dial (Address_b sampleBroker) # passes sampleDecode sampleBroker [successfulAttempt]
                 @ tr @ [LogError (Failure ''fork/exec /usr/bin/php: no such file or directory''), Fin],
               Returned))"
proof -
  have h0: "\<forall>p \<in> set [successfulAttempt]. snd (iteration sampleDecode sampleBroker p) = Continue"
    by (simp add: successfulAttempt_pass)
  have h1: "MustReserveWithoutTimeout (reserve_replies garbageAttempt) =
      ([ReserveCall Hour], Got 9 ''garbage'')"
    by (simp add: garbageAttempt_def)
  have h2: "timeouts_reply garbageAttempt = Inr 0" and h4: "run_releases_reply garbageAttempt = Inr 0"
    by (simp_all add: garbageAttempt_def)
  have h3: "0 < TimeoutTries" and h5: "0 < ReleaseTries"
    by (simp_all add: TimeoutTries_def ReleaseTries_def)
  have wd: "getJobWD sampleDecode (options sampleBroker) \<lparr>Id_job = 9, Body = ''garbage''\<rparr> =
        Inl (UnserializeFailed (Failure ''php unserialize failed''))"
    by (simp add: getJobWD_def sampleDecode_def)
  then have h6: "getJobWD sampleDecode (options sampleBroker) \<lparr>Id_job = 9, Body = ''garbage''\<rparr> =
        Inl (UnserializeFailed (Failure ''php unserialize failed''))
      \<or> (\<exists>wd t3 res. getJobWD sampleDecode (options sampleBroker) \<lparr>Id_job = 9, Body = ''garbage''\<rparr> = Inr wd
            \<and> executeJob sampleBroker (exec garbageAttempt) \<lparr>Id_job = 9, Body = ''garbage''\<rparr> wd =
                (t3, Some (res, Some (UnserializeFailed (Failure ''php unserialize failed'')))))"
    by (rule disjI1)
  from job_error_stops_worker [OF h0 h1 h2 h3 h4 h5 h6, of "[successfulAttempt]" False]
  have a: "\<exists>tr. Run sampleDecode sampleBroker None
              [successfulAttempt, garbageAttempt, successfulAttempt] False =
              (Dial (Address_b sampleBroker) # passes sampleDecode sampleBroker [successfulAttempt]
                 @ tr @ [LogError (UnserializeFailed (Failure ''php unserialize failed'')), Fin],
               Returned)"
    by auto
  let ?e = "Failure ''fork/exec /usr/bin/php: no such file or directory''"
  have g1: "MustReserveWithoutTimeout (reserve_replies spawnFailureAttempt) =
      ([ReserveCall Hour], Got 7 (Body sampleJob))"
    by (simp add: spawnFailureAttempt_def)
  have g2: "timeouts_reply spawnFailureAttempt = Inr 0"
    and g4: "run_releases_reply spawnFailureAttempt = Inr 0"
    by (simp_all add: spawnFailureAttempt_def)
  have o: "options sampleBroker = defaultOptions"
    by (simp add: sampleBroker_def)
  have st: "start (exec spawnFailureAttempt) = Some ?e"
    and tl: "snd (time_left (exec spawnFailureAttempt)) = None"
    and nc: "new_command (exec spawnFailureAttempt) = None"
    by (simp_all add: spawnFailureAttempt_def)
  have "\<exists>t3 res. executeJob sampleBroker (exec spawnFailureAttempt)
          \<lparr>Id_job = 7, Body = Body sampleJob\<rparr> ''/var/www/html/acme/worker'' = (t3, Some (res, Some ?e))"
    by (simp add: executeJob_def Let_def st tl nc)
  with sampleJob_wd o
  have g6: "getJobWD sampleDecode (options sampleBroker) \<lparr>Id_job = 7, Body = Body sampleJob\<rparr> = Inl ?e
      \<or> (\<exists>wd t3 res.
            getJobWD sampleDecode (options sampleBroker) \<lparr>Id_job = 7, Body = Body sampleJob\<rparr> = Inr wd
            \<and> executeJob sampleBroker (exec spawnFailureAttempt) \<lparr>Id_job = 7, Body = Body sampleJob\<rparr> wd =
                (t3, Some (res, Some ?e)))"
    by auto
  from job_error_stops_worker [OF h0 g1 g2 h3 g4 h5 g6, of "[successfulAttempt]" False]
  have b: "\<exists>tr. Run sampleDecode sampleBroker None
              [successfulAttempt, spawnFailureAttempt, successfulAttempt] False =
              (Dial (Address_b sampleBroker) # passes sampleDecode sampleBroker [successfulAttempt]
                 @ tr @ [LogError ?e, Fin], Returned)"
    by auto
  have c: "snd (iteration sampleDecode sampleBroker successfulAttempt) = Continue"
    by (simp add: successfulAttempt_pass)
  from c h1 h2 h3 h4 h5 wd a b show ?thesis by blast
qed

theorem job_error_counterexample:
  "Run sampleDecode sampleBroker None [garbageAttempt, successfulAttempt] False =
     ([Dial ''127.0.0.1:11300'', ReserveCall Hour, StatsTimeouts 9, StatsReleases 9,
       LogError (UnserializeFailed (Failure ''php unserialize failed'')), Fin], Returned)
   \<and> Run sampleDecode sampleBroker None [spawnFailureAttempt, successfulAttempt] False =
     ([Dial ''127.0.0.1:11300'', ReserveCall Hour, StatsTimeouts 7, StatsReleases 7,
       StatsTimeLeft 7, NewTimer (30 * Second + ttrMargin),
       NewCommand ''/var/www/html/acme/worker''
         [''/usr/bin/php'', ''-c'', ''/etc/php.ini'', ''index.php'', ''/Core/Job/Console''],
       StartWithStdin (Body sampleJob),
       LogError (Failure ''fork/exec /usr/bin/php: no such file or directory''), Fin], Returned)
   \<and> Run sampleDecode sampleBroker None [successfulAttempt, garbageAttempt, successfulAttempt] False =
     (Dial ''127.0.0.1:11300'' # fst (iteration sampleDecode sampleBroker successfulAttempt) @
        [ReserveCall Hour, StatsTimeouts 9, StatsReleases 9,
         LogError (UnserializeFailed (Failure ''php unserialize failed'')), Fin], Returned)
   \<and> length (filter queue_operation
         (fst (Run sampleDecode sampleBroker None
            [successfulAttempt, garbageAttempt, successfulAttempt] False))) = 1"
proof -
  have g: "iteration sampleDecode sampleBroker garbageAttempt =
      ([ReserveCall Hour, StatsTimeouts 9, StatsReleases 9,
        LogError (UnserializeFailed (Failure ''php unserialize failed''))], Return)"
    by (simp add: iteration_def garbageAttempt_def getJobWD_def sampleDecode_def
        TimeoutTries_def ReleaseTries_def)
  have a: "Run sampleDecode sampleBroker None [garbageAttempt, successfulAttempt] False =
     ([Dial ''127.0.0.1:11300'', ReserveCall Hour, StatsTimeouts 9, StatsReleases 9,
       LogError (UnserializeFailed (Failure ''php unserialize failed'')), Fin], Returned)"
    by (simp add: Run_def g) (simp add: sampleBroker_def)
  have b: "Run sampleDecode sampleBroker None [spawnFailureAttempt, successfulAttempt] False =
     ([Dial ''127.0.0.1:11300'', ReserveCall Hour, StatsTimeouts 7, StatsReleases 7,
       StatsTimeLeft 7, NewTimer (30 * Second + ttrMargin),
       NewCommand ''/var/www/html/acme/worker''
         [''/usr/bin/php'', ''-c'', ''/etc/php.ini'', ''index.php'', ''/Core/Job/Console''],
       StartWithStdin (Body sampleJob),
       LogError (Failure ''fork/exec /usr/bin/php: no such file or directory''), Fin], Returned)"
    by (simp add: Run_def iteration_def spawnFailureAttempt_def sampleJob_wd executeJob_def
        TimeoutTries_def ReleaseTries_def sampleBroker_def)
      (simp add: defaultOptions_def)
  have c: "Run sampleDecode sampleBroker None [successfulAttempt, garbageAttempt, successfulAttempt] False =
     (Dial ''127.0.0.1:11300'' # fst (iteration sampleDecode sampleBroker successfulAttempt) @
        [ReserveCall Hour, StatsTimeouts 9, StatsReleases 9,
         LogError (UnserializeFailed (Failure ''php unserialize failed'')), Fin], Returned)"
    by (simp add: Run_def g successfulAttempt_pass prepend_def) (simp add: sampleBroker_def)
  have d: "length (filter queue_operation
         (fst (Run sampleDecode sampleBroker None
            [successfulAttempt, garbageAttempt, successfulAttempt] False))) = 1"
    by (simp add: c successfulAttempt_pass)
  from a b c d show ?thesis by blast
qed

section \<open>The reserve adapter: retries and the panic\<close>

lemma reserve_errors_only:
  assumes "\<forall>e \<in> set errs. \<exists>c. e = ConnError c"
  shows "MustReserveWithoutTimeout (map ReserveErr errs @ rs) =
           prepend (concat (map retry_step errs)) (MustReserveWithoutTimeout rs)"
  using assms
proof (induction errs)
  case Nil
  then show ?case by (simp add: prepend_def)
next
  case (Cons e errs)
  then obtain c where c: "e = ConnError c" by auto
  from Cons have IH: "MustReserveWithoutTimeout (map ReserveErr errs @ rs) =
           prepend (concat (map retry_step errs)) (MustReserveWithoutTimeout rs)"
    by simp
  show ?case
    by (cases c) (simp_all add: c IH prepend_def)
qed

lemma reserve_not_conn_error:
  assumes "\<forall>c. err \<noteq> ConnError c"
  shows "MustReserveWithoutTimeout (ReserveErr err # rs) = ([ReserveCall Hour], ReservePanic)"
  using assms by (cases err) simp_all

lemma replies_shape:
  "\<exists>errs. (\<forall>e \<in> set errs. \<exists>c. e = ConnError c)
     \<and> (rs = map ReserveErr errs
        \<or> (\<exists>jid body rest. rs = map ReserveErr errs @ Reserved jid body # rest)
        \<or> (\<exists>err rest. (\<forall>c. err \<noteq> ConnError c) \<and> rs = map ReserveErr errs @ ReserveErr err # rest))"
  (is "\<exists>errs. ?shape errs rs")
proof (induction rs)
  case Nil
  have "?shape [] []" by simp
  then show ?case ..
next
  case (Cons r rs)
  then obtain errs where IH: "?shape errs rs" ..
  show ?case
  proof (cases r)
    case (Reserved jid body)
    then have "?shape [] (r # rs)" by simp
    then show ?thesis ..
  next
    case (ReserveErr err)
    show ?thesis
    proof (cases "\<exists>c. err = ConnError c")
      case False
      with ReserveErr have "?shape [] (r # rs)" by simp
      then show ?thesis ..
    next
      case True
      with IH have all: "\<forall>e \<in> set (err # errs). \<exists>c. e = ConnError c" by simp
      from IH have "rs = map ReserveErr errs
        \<or> (\<exists>jid body rest. rs = map ReserveErr errs @ Reserved jid body # rest)
        \<or> (\<exists>err rest. (\<forall>c. err \<noteq> ConnError c) \<and> rs = map ReserveErr errs @ ReserveErr err # rest)"
        by (rule conjunct2)
      then have "r # rs = map ReserveErr (err # errs)
        \<or> (\<exists>jid body rest. r # rs = map ReserveErr (err # errs) @ Reserved jid body # rest)
        \<or> (\<exists>err' rest. (\<forall>c. err' \<noteq> ConnError c)
               \<and> r # rs = map ReserveErr (err # errs) @ ReserveErr err' # rest)"
      proof (elim disjE exE conjE)
        assume "rs = map ReserveErr errs"
        with ReserveErr show ?thesis by simp
      next
        fix jid body rest
        assume "rs = map ReserveErr errs @ Reserved jid body # rest"
        with ReserveErr have "r # rs = map ReserveErr (err # errs) @ Reserved jid body # rest"
          by simp
        then show ?thesis by (intro disjI2 disjI1 exI)
      next
        fix err' rest
        assume "\<forall>c. err' \<noteq> ConnError c" and "rs = map ReserveErr errs @ ReserveErr err' # rest"
        with ReserveErr have "(\<forall>c. err' \<noteq> ConnError c)
            \<and> r # rs = map ReserveErr (err # errs) @ ReserveErr err' # rest"
          by simp
        then show ?thesis by (intro disjI2 exI)
      qed
      with all have "?shape (err # errs) (r # rs)" by (rule conjI)
      then show ?thesis ..
    qed
  qed
qed

text \<open>
  C9 (as the code has it). Every sequence of answers is a run of connection errors
  followed by nothing, by a job, or by an error that is not a \<open>ConnError\<close>. Through the
  run of connection errors the adapter keeps reserving: a timeout is followed by the next
  reserve call at once, a deadline-soon error by a sleep of \<open>DeadlineSoonDelay\<close> (one
  second) and the next call, and every other connection error is logged and followed by
  the next call as well. Then, if the answers end there, the adapter has made its next call
  and has not returned; if a job comes, the adapter returns it; if an error that is not a
  \<open>ConnError\<close> comes, the adapter panics, and the \<open>Run\<close> of the worker that called it
  ends in that panic, in whichever pass it happens.
\<close>

theorem reserve_adapter_retries:
  assumes "\<forall>e \<in> set errs. \<exists>c. e = ConnError c"
  shows "MustReserveWithoutTimeout (map ReserveErr errs) =
           (concat (map retry_step errs) @ [ReserveCall Hour], StillReserving)
       \<and> MustReserveWithoutTimeout (map ReserveErr errs @ Reserved jid body # rs) =
           (concat (map retry_step errs) @ [ReserveCall Hour], Got jid body)
       \<and> ((\<forall>c. err \<noteq> ConnError c) \<longrightarrow>
            MustReserveWithoutTimeout (map ReserveErr errs @ ReserveErr err # rs) =
              (concat (map retry_step errs) @ [ReserveCall Hour], ReservePanic))
       \<and> ((\<forall>c. err \<noteq> ConnError c) \<and> reserve_replies a = map ReserveErr errs @ ReserveErr err # rs
            \<and> (\<forall>p \<in> set pre. snd (iteration Decode b p) = Continue) \<longrightarrow>
            Run Decode b None (pre @ a # ticks) closed =
              (Dial (Address_b b) # passes Decode b pre @ concat (map retry_step errs)
                 @ [ReserveCall Hour, Fin], Panicked))
       \<and> sint DeadlineSoonDelay = sint Second
       \<and> (\<forall>replies. \<exists>errs'. (\<forall>e \<in> set errs'. \<exists>c. e = ConnError c)
            \<and> (replies = map ReserveErr errs'
               \<or> (\<exists>jid' body' rest. replies = map ReserveErr errs' @ Reserved jid' body' # rest)
               \<or> (\<exists>err' rest. (\<forall>c. err' \<noteq> ConnError c)
                     \<and> replies = map ReserveErr errs' @ ReserveErr err' # rest)))"
proof (intro conjI impI allI)
  show "MustReserveWithoutTimeout (map ReserveErr errs) =
      (concat (map retry_step errs) @ [ReserveCall Hour], StillReserving)"
    using reserve_errors_only [OF assms, of "[]"] by (simp add: prepend_def)
  show "MustReserveWithoutTimeout (map ReserveErr errs @ Reserved jid body # rs) =
           (concat (map retry_step errs) @ [ReserveCall Hour], Got jid body)"
    using reserve_errors_only [OF assms, of "Reserved jid body # rs"] by (simp add: prepend_def)
  show "MustReserveWithoutTimeout (map ReserveErr errs @ ReserveErr err # rs) =
              (concat (map retry_step errs) @ [ReserveCall Hour], ReservePanic)"
    if "\<forall>c. err \<noteq> ConnError c"
    using reserve_errors_only [OF assms, of "ReserveErr err # rs"] reserve_not_conn_error [OF that]
    by (simp add: prepend_def)
  show "Run Decode b None (pre @ a # ticks) closed =
              (Dial (Address_b b) # passes Decode b pre @ concat (map retry_step errs)
                 @ [ReserveCall Hour, Fin], Panicked)"
    if h: "(\<forall>c. err \<noteq> ConnError c) \<and> reserve_replies a = map ReserveErr errs @ ReserveErr err # rs
            \<and> (\<forall>p \<in> set pre. snd (iteration Decode b p) = Continue)"
  proof -
    from h have nc: "\<forall>c. err \<noteq> ConnError c" by blast
    have "MustReserveWithoutTimeout (reserve_replies a) =
        (concat (map retry_step errs) @ [ReserveCall Hour], ReservePanic)"
      using h reserve_errors_only [OF assms, of "ReserveErr err # rs"] reserve_not_conn_error [OF nc]
      by (simp add: prepend_def)
    then have "iteration Decode b a = (concat (map retry_step errs) @ [ReserveCall Hour], Crash)"
      by (simp add: iteration_def)
    with h show ?thesis
      using Run_after_passes [of pre Decode b a _ Crash ticks closed] by simp
  qed
  show "sint DeadlineSoonDelay = sint Second"
    by (simp add: DeadlineSoonDelay_def)
  show "\<exists>errs'. (\<forall>e \<in> set errs'. \<exists>c. e = ConnError c)
            \<and> (replies = map ReserveErr errs'
               \<or> (\<exists>jid' body' rest. replies = map ReserveErr errs' @ Reserved jid' body' # rest)
               \<or> (\<exists>err' rest. (\<forall>c. err' \<noteq> ConnError c)
                     \<and> replies = map ReserveErr errs' @ ReserveErr err' # rest))" for replies
    by (rule replies_shape)
qed

theorem reserve_adapter_retries_witness:
  "MustReserveWithoutTimeout
     [ReserveErr (ConnError ErrTimeout), ReserveErr (ConnError ErrDeadline),
      ReserveErr (ConnError (ErrOther ''internal error'')), Reserved 7 ''job''] =
     ([ReserveCall Hour, ReserveCall Hour, Sleep DeadlineSoonDelay, ReserveCall Hour,
       LogError (ConnError (ErrOther ''internal error'')), ReserveCall Hour], Got 7 ''job'')
   \<and> MustReserveWithoutTimeout
     [ReserveErr (ConnError ErrTimeout), ReserveErr (Failure ''name too long''), Reserved 7 ''job''] =
     ([ReserveCall Hour, ReserveCall Hour], ReservePanic)
   \<and> snd (iteration sampleDecode sampleBroker successfulAttempt) = Continue
   \<and> Run sampleDecode sampleBroker None [successfulAttempt, nameErrorAttempt, successfulAttempt]
        False =
     (Dial (Address_b sampleBroker) # passes sampleDecode sampleBroker [successfulAttempt]
        @ [ReserveCall Hour, ReserveCall Hour, Fin], Panicked)"
proof -
  have h: "\<forall>e \<in> set [ConnError ErrTimeout, ConnError ErrDeadline, ConnError (ErrOther ''internal error'')].
             \<exists>c. e = ConnError c"
    by simp
  have h2: "\<forall>e \<in> set [ConnError ErrTimeout]. \<exists>c. e = ConnError c"
    by simp
  have n: "\<forall>c. Failure ''name too long'' \<noteq> ConnError c"
    by simp
  from reserve_adapter_retries [OF h, of 7 "''job''" "[]"]
  have a: "MustReserveWithoutTimeout
     [ReserveErr (ConnError ErrTimeout), ReserveErr (ConnError ErrDeadline),
      ReserveErr (ConnError (ErrOther ''internal error'')), Reserved 7 ''job''] =
     ([ReserveCall Hour, ReserveCall Hour, Sleep DeadlineSoonDelay, ReserveCall Hour,
       LogError (ConnError (ErrOther ''internal error'')), ReserveCall Hour], Got 7 ''job'')"
    by simp
  from reserve_adapter_retries [OF h2, where err = "Failure ''name too long''"
      and rs = "[Reserved 7 ''job'']"] n
  have b: "MustReserveWithoutTimeout
     [ReserveErr (ConnError ErrTimeout), ReserveErr (Failure ''name too long''), Reserved 7 ''job''] =
     ([ReserveCall Hour, ReserveCall Hour], ReservePanic)"
    by simp
  have c: "snd (iteration sampleDecode sampleBroker successfulAttempt) = Continue"
    by (simp add: successfulAttempt_pass)
  have r: "reserve_replies nameErrorAttempt =
      map ReserveErr [ConnError ErrTimeout] @ ReserveErr (Failure ''name too long'') # []"
    by (simp add: nameErrorAttempt_def)
  from c have p: "\<forall>p \<in> set [successfulAttempt].
      snd (iteration sampleDecode sampleBroker p) = Continue"
    by simp
  from reserve_adapter_retries [OF h2, where err = "Failure ''name too long''" and rs = "[]"
      and a = nameErrorAttempt and pre = "[successfulAttempt]" and Decode = sampleDecode
      and b = sampleBroker and ticks = "[successfulAttempt]" and closed = False] n r p
  have d: "Run sampleDecode sampleBroker None
        [successfulAttempt, nameErrorAttempt, successfulAttempt] False =
     (Dial (Address_b sampleBroker) # passes sampleDecode sampleBroker [successfulAttempt]
        @ [ReserveCall Hour, ReserveCall Hour, Fin], Panicked)"
    by simp
  from a b c d show ?thesis by blast
qed

theorem reserve_other_error_counterexample:
  "MustReserveWithoutTimeout
     [ReserveErr (ConnError (ErrOther ''internal error'')), Reserved 7 ''job''] =
     ([ReserveCall Hour, LogError (ConnError (ErrOther ''internal error'')), ReserveCall Hour],
      Got 7 ''job'')"
  by (simp add: prepend_def)

section \<open>Watching a tube\<close>

lemma after_ret_keeps:
  "map l_tube (brokers (after_ret k bd)) = map l_tube (brokers bd)
   \<and> tubeSet (after_ret k bd) = tubeSet bd \<and> perTube (after_ret k bd) = perTube bd"
  by (simp add: after_ret_def Let_def map_update list_update_same_conv)






text \<open>The definitions a schedule is evaluated with.\<close>

lemmas dispatcher_defs =
  NewBrokerDispatcher_def defaultOptions_def RunTube_def RunTube_from_def runBroker_def
  watchNewTubes_def watched_def workers_for_def Shutdown_def resume_def after_ret_def
  pump_step_def worker_pass_def worker_wake_def worker_returns_def busyWorker_def Let_def



section \<open>Shutting down\<close>

text \<open>
  A parked call that comes back while the pump of its worker is blocked in its send
  kills the process.
\<close>

lemma resume_panics:
  assumes "c < length (parked bd)" and "ret_closed bd"
    and "p_launched (parked bd ! c) < length (brokers bd)"
    and "pump (brokers bd ! p_launched (parked bd ! c)) = PumpSending"
  shows "crashed (fst (resume c bd)) = Some SendOnClosedChannel \<and> snd (resume c bd) = Dead"
  using assms by (simp add: resume_def after_ret_def Let_def)

text \<open>
  The shutdown goes through when the pump is about to read \<open>end\<close> at the moment the
  ticker is closed, as here, where the worker is waiting for a token and the pump has not
  moved yet: the pump then finds \<open>end\<close> set and returns, and the worker finds its
  ticker closed and returns.
\<close>

lemma Shutdown_graceful_race:
  "wg (run [CallWatchNewTubes (Inr [''default'']), WorkerPass 0 Continue, CallShutdown, Resume 0,
            PumpStep 0, WorkerWake 0] (NewBrokerDispatcher defaultOptions)) = 0
   \<and> crashed (run [CallWatchNewTubes (Inr [''default'']), WorkerPass 0 Continue, CallShutdown,
            Resume 0, PumpStep 0, WorkerWake 0] (NewBrokerDispatcher defaultOptions)) = None"
  by (simp add: dispatcher_defs)

text \<open>
  With the pump past its test of \<open>end\<close> the same shutdown panics, even with the
  worker waiting for the token: the ticker is closed before the pump sends.
\<close>

lemma Shutdown_idle_race:
  "crashed (run [CallWatchNewTubes (Inr [''default'']), WorkerPass 0 Continue, PumpStep 0,
            CallShutdown, Resume 0, PumpStep 0] (NewBrokerDispatcher defaultOptions))
     = Some SendOnClosedChannel"
  by (simp add: dispatcher_defs)

text \<open>
  C8. The dispatcher is in discovery mode with one worker per tube; the worker for
  \<open>default\<close> is in a pass and its pump is blocked in \<open>ticker <- true\<close>. \<open>Shutdown\<close>
  closes \<open>ret\<close> and returns: the process is alive, the counter of the wait group is
  still 1 and the worker is still in its pass. The call of \<open>runBroker\<close> that was parked
  on \<open>ret\<close> then closes the ticker, and the pump panics with a send on a closed channel.
  A second \<open>Shutdown\<close> panics with the close of a closed channel.
\<close>

theorem Shutdown_panics:
  "map worker (brokers (run busyWorker (NewBrokerDispatcher defaultOptions))) = [WorkerBusy]
   \<and> map pump (brokers (run busyWorker (NewBrokerDispatcher defaultOptions))) = [PumpSending]
   \<and> ret_closed (run (busyWorker @ [CallShutdown]) (NewBrokerDispatcher defaultOptions))
   \<and> crashed (run (busyWorker @ [CallShutdown]) (NewBrokerDispatcher defaultOptions)) = None
   \<and> wg (run (busyWorker @ [CallShutdown]) (NewBrokerDispatcher defaultOptions)) = 1
   \<and> map worker (brokers (run (busyWorker @ [CallShutdown]) (NewBrokerDispatcher defaultOptions)))
        = [WorkerBusy]
   \<and> crashed (run (busyWorker @ [CallShutdown, Resume 0]) (NewBrokerDispatcher defaultOptions))
        = Some SendOnClosedChannel
   \<and> crashed (run (busyWorker @ [CallShutdown, CallShutdown]) (NewBrokerDispatcher defaultOptions))
        = Some CloseOfClosedChannel"
  by (simp add: dispatcher_defs)

end
